theory Spec2Isabelle
  imports Main "HOL-Library.Sublist" "HOL-Library.AList"
begin

section \<open>Python values\<close>

text \<open>
  The server (\<^verbatim>\<open>servicenow.py\<close>) moves JSON values between its tool arguments, its
  request payloads and the bodies the remote instance answers with.  A JSON value is
  what \<^verbatim>\<open>json.loads\<close> builds: \<^verbatim>\<open>None\<close>, \<^verbatim>\<open>bool\<close>, \<^verbatim>\<open>int\<close>, \<^verbatim>\<open>float\<close>, \<^verbatim>\<open>str\<close>,
  \<^verbatim>\<open>list\<close> and \<^verbatim>\<open>dict\<close> (keys in insertion order).  A float is carried by the text
  that \<^verbatim>\<open>repr\<close> prints for it, since the program only ever prints it or tests it for
  zero.  A Python \<^verbatim>\<open>str\<close> is a \<open>string\<close>; characters outside ASCII are the bytes of
  their UTF-8 encoding and are left alone by \<open>lower\<close>.
\<close>

datatype json =
    JNull
  | JBool bool
  | JInt int
  | JFloat string
  | JStr string
  | JArr "json list"
  | JObj "(string \<times> json) list"

type_synonym pydict = "(string \<times> json) list"

text \<open>
  The exceptions of the program.  \<open>ValueError\<close> is the typed error of the transport
  helper, the only class the tools catch (\<open>JSONDecodeError\<close> is a subclass of it);
  the others are faults of the interpreter (a method missing on a value, a value that
  cannot be iterated or indexed, a \<^verbatim>\<open>timedelta\<close> out of range) or, as
  \<open>OtherException c m\<close>, an exception of any other class \<open>c\<close> with text \<open>m\<close>.
\<close>

datatype exn =
    ValueError string
  | JSONDecodeError string
  | AttributeError string
  | TypeError string
  | KeyError string
  | OverflowError string
  | OtherException string string

text \<open>\<^verbatim>\<open>type(e).__name__\<close> and \<^verbatim>\<open>str(e)\<close> of an exception.\<close>

definition class_name :: "exn \<Rightarrow> string" where
  "class_name e =
     (case e of ValueError _ \<Rightarrow> ''ValueError'' | JSONDecodeError _ \<Rightarrow> ''JSONDecodeError''
      | AttributeError _ \<Rightarrow> ''AttributeError'' | TypeError _ \<Rightarrow> ''TypeError''
      | KeyError _ \<Rightarrow> ''KeyError'' | OverflowError _ \<Rightarrow> ''OverflowError''
      | OtherException c _ \<Rightarrow> c)"

definition message :: "exn \<Rightarrow> string" where
  "message e =
     (case e of ValueError m \<Rightarrow> m | JSONDecodeError m \<Rightarrow> m | AttributeError m \<Rightarrow> m
      | TypeError m \<Rightarrow> m | KeyError m \<Rightarrow> m | OverflowError m \<Rightarrow> m
      | OtherException _ m \<Rightarrow> m)"

subsection \<open>Printing\<close>

definition digit_char :: "nat \<Rightarrow> char" where
  "digit_char n = ''0123456789'' ! (n mod 10)"

fun str_nat :: "nat \<Rightarrow> string" where
  "str_nat n = (if n < 10 then [digit_char n] else str_nat (n div 10) @ [digit_char n])"

declare str_nat.simps [simp del]

definition str_int :: "int \<Rightarrow> string" where
  "str_int i = (if i < 0 then CHR ''-'' # str_nat (nat (- i)) else str_nat (nat i))"

text \<open>\<^verbatim>\<open>"%02d" % n\<close> for \<open>n \<ge> 0\<close>.\<close>

definition pad2 :: "nat \<Rightarrow> string" where
  "pad2 n = (if n < 10 then CHR ''0'' # str_nat n else str_nat n)"

text \<open>\<^verbatim>\<open>sep.join(xs)\<close>.\<close>

fun join :: "string \<Rightarrow> string list \<Rightarrow> string" where
  "join sep [] = []"
| "join sep [x] = x"
| "join sep (x # y # ys) = x @ sep @ join sep (y # ys)"

text \<open>
  \<^verbatim>\<open>s.lower()\<close> on the ASCII letters.  Python lowers the letters outside ASCII as
  well, which the bytes of a \<open>string\<close> do not show: for text with such letters
  \<open>lower\<close> is not what Python gives (the \<^verbatim>\<open>mandatory\<close> field of a variable is the
  one place where that text reaches a payload).  The lookup of a type code is the same
  in both: a key of \<^verbatim>\<open>var_type_map\<close> has ASCII letters only, and the one letter outside
  ASCII that lowers to an ASCII letter is the Kelvin sign, to a k that no key has.
\<close>

definition lower_char :: "char \<Rightarrow> char" where
  "lower_char c =
     (case map_of (zip ''ABCDEFGHIJKLMNOPQRSTUVWXYZ'' ''abcdefghijklmnopqrstuvwxyz'') c of
        None \<Rightarrow> c
      | Some l \<Rightarrow> l)"

definition lower :: "string \<Rightarrow> string" where
  "lower s = map lower_char s"

text \<open>
  \<^verbatim>\<open>repr\<close> of a string: single quotes, unless the string has a single quote and no
  double quote; the quote and the backslash are escaped, and so are the control
  characters.
\<close>

definition hex_char :: "nat \<Rightarrow> char" where
  "hex_char n = ''0123456789abcdef'' ! (n mod 16)"

definition repr_char :: "char \<Rightarrow> char \<Rightarrow> string" where
  "repr_char q c =
     (let n = (of_char c :: nat) in
      if c = q \<or> c = CHR 0x5C then [CHR 0x5C, c]
      else if n = 9 then [CHR 0x5C, CHR ''t'']
      else if n = 10 then [CHR 0x5C, CHR ''n'']
      else if n = 13 then [CHR 0x5C, CHR ''r'']
      else if n < 32 \<or> n = 127 then [CHR 0x5C, CHR ''x'', hex_char (n div 16), hex_char n]
      else [c])"

definition repr_str :: "string \<Rightarrow> string" where
  "repr_str s =
     (let q = (if CHR 0x27 \<in> set s \<and> CHR 0x22 \<notin> set s then CHR 0x22 else CHR 0x27)
      in [q] @ concat (map (repr_char q) s) @ [q])"

primrec py_repr :: "json \<Rightarrow> string" where
  "py_repr JNull = ''None''"
| "py_repr (JBool b) = (if b then ''True'' else ''False'')"
| "py_repr (JInt i) = str_int i"
| "py_repr (JFloat r) = r"
| "py_repr (JStr s) = repr_str s"
| "py_repr (JArr xs) = ''['' @ join '', '' (map py_repr xs) @ '']''"
| "py_repr (JObj kvs) =
     ''{'' @ join '', '' (map (\<lambda>kv. repr_str (fst kv) @ '': '' @ snd kv) (map (map_prod id py_repr) kvs)) @ ''}''"

text \<open>\<^verbatim>\<open>str(v)\<close>, which is what an f-string prints for \<^verbatim>\<open>{v}\<close>.\<close>

definition py_str :: "json \<Rightarrow> string" where
  "py_str v = (case v of JStr s \<Rightarrow> s | _ \<Rightarrow> py_repr v)"

text \<open>\<^verbatim>\<open>type(v).__name__\<close>.\<close>

definition type_name :: "json \<Rightarrow> string" where
  "type_name v =
     (case v of JNull \<Rightarrow> ''NoneType'' | JBool _ \<Rightarrow> ''bool'' | JInt _ \<Rightarrow> ''int''
      | JFloat _ \<Rightarrow> ''float'' | JStr _ \<Rightarrow> ''str'' | JArr _ \<Rightarrow> ''list'' | JObj _ \<Rightarrow> ''dict'')"

text \<open>The truth value of \<^verbatim>\<open>v\<close> in \<^verbatim>\<open>if v\<close> and \<^verbatim>\<open>not v\<close>.\<close>

definition truthy :: "json \<Rightarrow> bool" where
  "truthy v =
     (case v of JNull \<Rightarrow> False | JBool b \<Rightarrow> b | JInt i \<Rightarrow> i \<noteq> 0
      | JFloat r \<Rightarrow> r \<noteq> ''0.0'' \<and> r \<noteq> ''-0.0'' | JStr s \<Rightarrow> s \<noteq> []
      | JArr xs \<Rightarrow> xs \<noteq> [] | JObj kvs \<Rightarrow> kvs \<noteq> [])"

text \<open>The truth value of an argument of type \<^verbatim>\<open>str | None\<close>.\<close>

definition truthy_opt :: "string option \<Rightarrow> bool" where
  "truthy_opt a = (case a of None \<Rightarrow> False | Some s \<Rightarrow> s \<noteq> [])"

definition opt_json :: "string option \<Rightarrow> json" where
  "opt_json a = (case a of None \<Rightarrow> JNull | Some s \<Rightarrow> JStr s)"

subsection \<open>Dictionaries\<close>

text \<open>The single quote, and the message of the \<^verbatim>\<open>AttributeError\<close> for a missing method.\<close>

abbreviation sq :: string where
  "sq \<equiv> [CHR 0x27]"

definition no_attribute :: "json \<Rightarrow> string \<Rightarrow> string" where
  "no_attribute v m = sq @ type_name v @ sq @ '' object has no attribute '' @ sq @ m @ sq"

text \<open>\<^verbatim>\<open>d.get(k, default)\<close> on a dictionary.\<close>

definition dict_get :: "pydict \<Rightarrow> string \<Rightarrow> json \<Rightarrow> json" where
  "dict_get d k dflt = (case map_of d k of None \<Rightarrow> dflt | Some v \<Rightarrow> v)"

text \<open>
  \<^verbatim>\<open>v.get(k, default)\<close> on a value that should be a dictionary: any other value has no
  method \<^verbatim>\<open>get\<close>.
\<close>

definition py_get :: "json \<Rightarrow> string \<Rightarrow> json \<Rightarrow> exn + json" where
  "py_get v k dflt =
     (case v of
        JObj d \<Rightarrow> Inr (dict_get d k dflt)
      | _ \<Rightarrow> Inl (AttributeError (no_attribute v ''get'')))"

text \<open>\<^verbatim>\<open>v.lower()\<close> on a value that should be a string.\<close>

definition py_lower :: "json \<Rightarrow> exn + string" where
  "py_lower v =
     (case v of
        JStr s \<Rightarrow> Inr (lower s)
      | _ \<Rightarrow> Inl (AttributeError (no_attribute v ''lower'')))"

text \<open>Sequencing of steps that may raise.\<close>

definition bind :: "exn + 'a \<Rightarrow> ('a \<Rightarrow> exn + 'b) \<Rightarrow> exn + 'b" where
  "bind m f = (case m of Inl e \<Rightarrow> Inl e | Inr x \<Rightarrow> f x)"

text \<open>
  \<^verbatim>\<open>try: ... except ValueError as e: return h(e)\<close>: an exception of class
  \<^verbatim>\<open>ValueError\<close> (or of its subclass) becomes the returned string, any other
  exception goes on to the caller.
\<close>

definition except_ValueError :: "exn + string \<Rightarrow> (string \<Rightarrow> string) \<Rightarrow> exn + string" where
  "except_ValueError m h =
     (case m of
        Inr s \<Rightarrow> Inr s
      | Inl (ValueError e) \<Rightarrow> Inr (h e)
      | Inl (JSONDecodeError e) \<Rightarrow> Inr (h e)
      | Inl x \<Rightarrow> Inl x)"

section \<open>The transport helper\<close>

text \<open>
  What the HTTP client reports for one call.  A response has its status code, its body
  as text (\<^verbatim>\<open>response.text\<close>) and what \<^verbatim>\<open>response.json()\<close> gives: the parsed
  body, or the exception the parser raises.  A call that gets no response raises
  \<^verbatim>\<open>httpx.RequestError\<close> (connection refused, timeout, DNS) or some other exception.
\<close>

record response =
  status_code :: nat
  body_text :: string
  body_json :: "exn + json"

datatype http_outcome =
    Response response
  | RequestError string
  | CallRaised exn

text \<open>
  A request is the method, the endpoint (the URL is the configured instance, a slash and
  the endpoint) and the payload: the JSON body of a POST, the query parameters of a GET.
\<close>

record request =
  req_method :: string
  req_endpoint :: string
  req_payload :: pydict

text \<open>
  The remote side: the outcome of the \<open>n\<close>-th call of an invocation, given its
  request.  The state threaded through the program is the list of the requests sent so
  far.
\<close>

type_synonym network = "nat \<Rightarrow> request \<Rightarrow> http_outcome"

text \<open>
  What is raised inside the \<^verbatim>\<open>try\<close> of the helper, by the class the handlers
  tell apart.
\<close>

datatype raised =
    HTTPStatusError response
  | HttpxRequestError string
  | Exc exn

text \<open>
  \<^verbatim>\<open>response.raise_for_status()\<close> of httpx raises \<^verbatim>\<open>HTTPStatusError\<close> for every
  status that is not 2xx.
\<close>

definition is_success :: "response \<Rightarrow> bool" where
  "is_success r = (200 \<le> status_code r \<and> status_code r \<le> 299)"

text \<open>\<^verbatim>\<open>response.json().get("result", default)\<close>.\<close>

definition json_result :: "response \<Rightarrow> json \<Rightarrow> raised + json" where
  "json_result r dflt =
     (case body_json r of
        Inl e \<Rightarrow> Inl (Exc e)
      | Inr v \<Rightarrow> (case py_get v ''result'' dflt of Inl e \<Rightarrow> Inl (Exc e) | Inr x \<Rightarrow> Inr x))"

text \<open>Lines 51 to 69: the response is checked and normalised.\<close>

definition normalized :: "http_outcome \<Rightarrow> raised + json" where
  "normalized out =
     (case out of
        RequestError m \<Rightarrow> Inl (HttpxRequestError m)
      | CallRaised e \<Rightarrow> Inl (Exc e)
      | Response r \<Rightarrow>
          if \<not> is_success r then Inl (HTTPStatusError r)
          else if status_code r = 204 then
            Inr (JObj [(''status'', JStr ''success''),
                       (''message'', JStr ''Operation successful (No Content)'')])
          else if status_code r = 201 then
            json_result r (JObj [(''status'', JStr ''success''),
                                 (''message'', JStr ''Record created'')])
          else json_result r (JObj []))"

text \<open>\<^verbatim>\<open>error_details\<close> of line 72.\<close>

definition http_error_details :: "response \<Rightarrow> string" where
  "http_error_details r = ''HTTP Error: '' @ str_nat (status_code r) @ '' - '' @ body_text r"

text \<open>
  Lines 76 to 79, the body of the inner \<^verbatim>\<open>try\<close>.  It ends in a \<^verbatim>\<open>raise\<close> on every
  path, so its value is the exception raised there.
\<close>

definition parse_sn_error :: "response \<Rightarrow> exn" where
  "parse_sn_error r =
     (case body_json r of
        Inl e \<Rightarrow> e
      | Inr v \<Rightarrow>
          (case py_get v ''error'' (JObj []) of
             Inl e \<Rightarrow> e
           | Inr sn_error \<Rightarrow>
               (case py_get sn_error ''message'' (JStr ''Unknown ServiceNow Error'') of
                  Inl e \<Rightarrow> e
                | Inr msg \<Rightarrow>
                    (case py_get sn_error ''detail'' (JStr (body_text r)) of
                       Inl e \<Rightarrow> e
                     | Inr detail \<Rightarrow>
                         ValueError (''ServiceNow API Error: '' @ py_str msg @ '' - '' @ py_str detail)))))"

text \<open>
  Lines 71 to 88, the handler of \<^verbatim>\<open>HTTPStatusError\<close>.  The exception of the inner
  \<^verbatim>\<open>try\<close> meets \<^verbatim>\<open>except json.JSONDecodeError\<close> first and \<^verbatim>\<open>except Exception\<close>
  second; the \<^verbatim>\<open>ValueError\<close> of line 79 is raised inside that \<^verbatim>\<open>try\<close> too, and it
  is an \<^verbatim>\<open>Exception\<close>.
\<close>

definition on_http_status_error :: "response \<Rightarrow> exn" where
  "on_http_status_error r =
     (let error_details = http_error_details r in
      case parse_sn_error r of
        JSONDecodeError _ \<Rightarrow> ValueError error_details
      | _ \<Rightarrow> ValueError error_details)"

text \<open>Lines 71 to 99: every exception of the \<^verbatim>\<open>try\<close> becomes a \<^verbatim>\<open>ValueError\<close>.\<close>

definition handle :: "raised + json \<Rightarrow> exn + json" where
  "handle t =
     (case t of
        Inr v \<Rightarrow> Inr v
      | Inl (HTTPStatusError r) \<Rightarrow> Inl (on_http_status_error r)
      | Inl (HttpxRequestError m) \<Rightarrow>
          Inl (ValueError (''Could not connect to ServiceNow: '' @ ''Request Error: '' @ m))
      | Inl (Exc e) \<Rightarrow>
          Inl (ValueError (''Unexpected error during ServiceNow request: ''
                           @ class_name e @ '' - '' @ message e)))"

text \<open>
  \<^verbatim>\<open>_make_servicenow_request(endpoint, payload, method)\<close>.  A method other than POST
  and GET raises before anything is sent.  The debug \<^verbatim>\<open>print\<close>s are left out.
\<close>

definition make_servicenow_request ::
  "network \<Rightarrow> string \<Rightarrow> pydict \<Rightarrow> string \<Rightarrow> request list \<Rightarrow> (exn + json) \<times> request list" where
  "make_servicenow_request net endpoint payload method log =
     (if method = ''POST'' \<or> method = ''GET'' then
        (let req = \<lparr>req_method = method, req_endpoint = endpoint, req_payload = payload\<rparr>
         in (handle (normalized (net (length log) req)), log @ [req]))
      else
        (handle (Inl (Exc (ValueError (''Unsupported HTTP method: '' @ method)))), log))"

text \<open>\<^verbatim>\<open>sn_get(table, limit)\<close>.\<close>

definition sn_get ::
  "network \<Rightarrow> string \<Rightarrow> int \<Rightarrow> request list \<Rightarrow> (exn + json) \<times> request list" where
  "sn_get net table limit log =
     (let endpoint = ''api/now/table/'' @ table;
          params = [(''sysparm_limit'', JInt limit), (''sysparm_display_value'', JStr ''true'')]
      in make_servicenow_request net endpoint params ''GET'' log)"

section \<open>The creation tools\<close>

text \<open>
  Every tool takes the remote side and the requests sent so far, and gives what it
  returns to its caller (\<open>Inr\<close> the string, \<open>Inl\<close> an exception that leaves the
  tool) with the requests sent.  An argument of type \<^verbatim>\<open>str | None\<close> is a
  \<open>string option\<close>.
\<close>

type_synonym tool_result = "(exn + string) \<times> request list"

text \<open>\<^verbatim>\<open>a or b\<close> for an optional string \<^verbatim>\<open>a\<close> and a string \<^verbatim>\<open>b\<close>.\<close>

definition or_else :: "string option \<Rightarrow> string \<Rightarrow> string" where
  "or_else a b = (case a of None \<Rightarrow> b | Some s \<Rightarrow> if s \<noteq> [] then s else b)"

text \<open>\<^verbatim>\<open>if a: payload[k] = a\<close>.\<close>

definition set_if_given :: "string \<Rightarrow> string option \<Rightarrow> pydict \<Rightarrow> pydict" where
  "set_if_given k a payload =
     (case a of None \<Rightarrow> payload
      | Some s \<Rightarrow> if s \<noteq> [] then AList.update k (JStr s) payload else payload)"

text \<open>\<^verbatim>\<open>str(b).lower()\<close> for a boolean \<^verbatim>\<open>b\<close>.\<close>

definition bool_lower :: "bool \<Rightarrow> string" where
  "bool_lower b = lower (py_str (JBool b))"

text \<open>
  Each tool builds its payload first (a dictionary literal and the optional keys), then
  calls the helper inside its \<^verbatim>\<open>try\<close>.
\<close>

definition incident_payload ::
  "string \<Rightarrow> string option \<Rightarrow> string option \<Rightarrow> string option \<Rightarrow> string option \<Rightarrow> pydict" where
  "incident_payload short_description description caller_id urgency impact =
     (let payload = [(''short_description'', JStr short_description),
                     (''description'', JStr (or_else description short_description)),
                     (''urgency'', opt_json urgency),
                     (''impact'', opt_json impact)]
      in set_if_given ''caller_id'' caller_id payload)"

definition create_incident ::
  "network \<Rightarrow> string \<Rightarrow> string option \<Rightarrow> string option \<Rightarrow> string option \<Rightarrow> string option
   \<Rightarrow> request list \<Rightarrow> tool_result" where
  "create_incident net short_description description caller_id urgency impact log =
     (let endpoint = ''api/now/table/incident'';
          payload = incident_payload short_description description caller_id urgency impact
      in case make_servicenow_request net endpoint payload ''POST'' log of
           (r, log') \<Rightarrow>
             (except_ValueError
                (bind r (\<lambda>result.
                 bind (py_get result ''number'' (JStr ''UNKNOWN'')) (\<lambda>incident_number.
                 bind (py_get result ''sys_id'' (JStr ''UNKNOWN'')) (\<lambda>sys_id.
                 Inr (''Successfully created incident '' @ py_str incident_number
                      @ '' (Sys ID: '' @ py_str sys_id @ '').'')))))
                (\<lambda>e. ''Error creating incident: '' @ e),
              log'))"

definition kb_article_payload ::
  "string \<Rightarrow> string \<Rightarrow> string option \<Rightarrow> string option \<Rightarrow> pydict" where
  "kb_article_payload short_description article_body kb_knowledge_base workflow_state =
     (let payload = [(''short_description'', JStr short_description),
                     (''text'', JStr article_body),
                     (''workflow_state'', opt_json workflow_state),
                     (''article_type'', JStr ''text'')]
      in set_if_given ''kb_knowledge_base'' kb_knowledge_base payload)"

definition create_kb_article ::
  "network \<Rightarrow> string \<Rightarrow> string \<Rightarrow> string option \<Rightarrow> string option
   \<Rightarrow> request list \<Rightarrow> tool_result" where
  "create_kb_article net short_description article_body kb_knowledge_base workflow_state log =
     (let endpoint = ''api/now/table/kb_knowledge'';
          payload = kb_article_payload short_description article_body kb_knowledge_base
                      workflow_state
      in case make_servicenow_request net endpoint payload ''POST'' log of
           (r, log') \<Rightarrow>
             (except_ValueError
                (bind r (\<lambda>result.
                 bind (py_get result ''number'' (JStr ''UNKNOWN'')) (\<lambda>kb_number.
                 bind (py_get result ''sys_id'' (JStr ''UNKNOWN'')) (\<lambda>sys_id.
                 Inr (''Successfully created KB article '' @ py_str kb_number
                      @ '' (Sys ID: '' @ py_str sys_id @ '').'')))))
                (\<lambda>e. ''Error creating KB article: '' @ e),
              log'))"

definition client_script_payload ::
  "string \<Rightarrow> string \<Rightarrow> string \<Rightarrow> string \<Rightarrow> string \<Rightarrow> string option \<Rightarrow> bool \<Rightarrow> pydict" where
  "client_script_payload name table script ui_type script_type field_name is_active =
     (let payload = [(''name'', JStr name),
                     (''table'', JStr table),
                     (''script'', JStr script),
                     (''ui_type'', JStr ui_type),
                     (''type'', JStr script_type),
                     (''active'', JStr (bool_lower is_active))]
      in set_if_given ''field_name'' field_name payload)"

definition create_client_script ::
  "network \<Rightarrow> string \<Rightarrow> string \<Rightarrow> string \<Rightarrow> string \<Rightarrow> string \<Rightarrow> string option \<Rightarrow> bool
   \<Rightarrow> request list \<Rightarrow> tool_result" where
  "create_client_script net name table script ui_type script_type field_name is_active log =
     (if script_type = ''onChange'' \<and> \<not> truthy_opt field_name then
        (Inr (''Error: '' @ sq @ ''field_name'' @ sq @ '' is required when script_type is ''
              @ sq @ ''onChange'' @ sq @ ''.''), log)
      else
        let endpoint = ''api/now/table/sys_script_client'';
            payload = client_script_payload name table script ui_type script_type field_name
                        is_active
        in case make_servicenow_request net endpoint payload ''POST'' log of
             (r, log') \<Rightarrow>
               (except_ValueError
                  (bind r (\<lambda>result.
                   bind (py_get result ''name'' (JStr name)) (\<lambda>script_name.
                   bind (py_get result ''sys_id'' (JStr ''UNKNOWN'')) (\<lambda>sys_id.
                   Inr (''Successfully created Client Script '' @ sq @ py_str script_name @ sq
                        @ '' (Sys ID: '' @ py_str sys_id @ '').'')))))
                  (\<lambda>e. ''Error creating Client Script: '' @ e),
                log'))"

definition business_rule_payload ::
  "string \<Rightarrow> string \<Rightarrow> string \<Rightarrow> string \<Rightarrow> int \<Rightarrow> bool \<Rightarrow> bool \<Rightarrow> bool \<Rightarrow> bool \<Rightarrow> bool
   \<Rightarrow> pydict" where
  "business_rule_payload name table script when order action_insert action_update
     action_delete action_query is_active =
     [(''name'', JStr name),
      (''table'', JStr table),
      (''script'', JStr script),
      (''when'', JStr when),
      (''order'', JInt order),
      (''action_insert'', JStr (bool_lower action_insert)),
      (''action_update'', JStr (bool_lower action_update)),
      (''action_delete'', JStr (bool_lower action_delete)),
      (''action_query'', JStr (bool_lower action_query)),
      (''active'', JStr (bool_lower is_active)),
      (''collection'', JStr table)]"

definition create_business_rule ::
  "network \<Rightarrow> string \<Rightarrow> string \<Rightarrow> string \<Rightarrow> string \<Rightarrow> int \<Rightarrow> bool \<Rightarrow> bool \<Rightarrow> bool \<Rightarrow> bool
   \<Rightarrow> bool \<Rightarrow> request list \<Rightarrow> tool_result" where
  "create_business_rule net name table script when order action_insert action_update
     action_delete action_query is_active log =
     (let endpoint = ''api/now/table/sys_script'';
          payload = business_rule_payload name table script when order action_insert
                      action_update action_delete action_query is_active
      in case make_servicenow_request net endpoint payload ''POST'' log of
           (r, log') \<Rightarrow>
             (except_ValueError
                (bind r (\<lambda>result.
                 bind (py_get result ''name'' (JStr name)) (\<lambda>rule_name.
                 bind (py_get result ''sys_id'' (JStr ''UNKNOWN'')) (\<lambda>sys_id.
                 Inr (''Successfully created Business Rule '' @ sq @ py_str rule_name @ sq
                      @ '' (Sys ID: '' @ py_str sys_id @ '').'')))))
                (\<lambda>e. ''Error creating Business Rule: '' @ e),
              log'))"

subsection \<open>The duration of an SLA\<close>

text \<open>
  \<^verbatim>\<open>str(timedelta(seconds=n))\<close> for an integer \<open>n\<close>: the constructor normalises to
  days and seconds of the day and refuses more than 999999999 days (with another
  message when the days do not fit a C \<^verbatim>\<open>int\<close>); the text is
  \<^verbatim>\<open>H:MM:SS\<close>, after \<^verbatim>\<open>D day, \<close> or \<^verbatim>\<open>D days, \<close> when the days are not zero.
\<close>

definition timedelta_str :: "int \<Rightarrow> exn + string" where
  "timedelta_str n =
     (let days = n div 86400;
          seconds = nat (n mod 86400);
          mm = seconds div 60; ss = seconds mod 60;
          hh = mm div 60; mm = mm mod 60;
          s = str_nat hh @ '':'' @ pad2 mm @ '':'' @ pad2 ss
      in if days < - 2147483648 \<or> 2147483647 < days then
           Inl (OverflowError ''Python int too large to convert to C int'')
         else if \<bar>days\<bar> > 999999999 then
           Inl (OverflowError (''days='' @ str_int days @ ''; must have magnitude <= 999999999''))
         else if days \<noteq> 0 then
           Inr (str_int days @ '' day'' @ (if \<bar>days\<bar> \<noteq> 1 then ''s'' else []) @ '', '' @ s)
         else Inr s)"

text \<open>\<^verbatim>\<open>s.split('.')[0]\<close> and \<^verbatim>\<open>s.zfill(width)\<close>.\<close>

definition before_dot :: "string \<Rightarrow> string" where
  "before_dot s = takeWhile (\<lambda>c. c \<noteq> CHR ''.'') s"

definition zfill :: "nat \<Rightarrow> string \<Rightarrow> string" where
  "zfill width s =
     (if width \<le> length s then s
      else case s of
             [] \<Rightarrow> replicate width CHR ''0''
           | c # rest \<Rightarrow>
               if c = CHR ''+'' \<or> c = CHR ''-''
               then c # replicate (width - length s) CHR ''0'' @ rest
               else replicate (width - length s) CHR ''0'' @ s)"

text \<open>Lines 317 to 320.\<close>

definition glide_duration :: "int \<Rightarrow> exn + string" where
  "glide_duration duration_seconds =
     bind (timedelta_str duration_seconds) (\<lambda>td.
       Inr (''1970-01-01 '' @ zfill 8 (before_dot td)))"

definition sla_payload ::
  "string \<Rightarrow> string \<Rightarrow> string \<Rightarrow> string option \<Rightarrow> string option \<Rightarrow> string option \<Rightarrow> pydict" where
  "sla_payload name table duration start_condition stop_condition pause_condition =
     (let payload = [(''name'', JStr name),
                     (''target_table'', JStr table),
                     (''duration'', JStr duration),
                     (''duration_type'', JStr ''glide_duration''),
                     (''type'', JStr ''SLA''),
                     (''active'', JStr ''true'')];
          payload = set_if_given ''start_condition'' start_condition payload;
          payload = set_if_given ''stop_condition'' stop_condition payload
      in set_if_given ''pause_condition'' pause_condition payload)"

definition create_sla_definition ::
  "network \<Rightarrow> string \<Rightarrow> string \<Rightarrow> int \<Rightarrow> string option \<Rightarrow> string option \<Rightarrow> string option
   \<Rightarrow> request list \<Rightarrow> tool_result" where
  "create_sla_definition net name table duration_seconds start_condition stop_condition
     pause_condition log =
     (case glide_duration duration_seconds of
        Inl e \<Rightarrow> (Inl e, log)
      | Inr duration \<Rightarrow>
          let endpoint = ''api/now/table/contract_sla'';
              payload = sla_payload name table duration start_condition stop_condition
                          pause_condition
          in case make_servicenow_request net endpoint payload ''POST'' log of
               (r, log') \<Rightarrow>
                 (except_ValueError
                    (bind r (\<lambda>result.
                     bind (py_get result ''name'' (JStr name)) (\<lambda>sla_name.
                     bind (py_get result ''sys_id'' (JStr ''UNKNOWN'')) (\<lambda>sys_id.
                     Inr (''Successfully created SLA Definition '' @ sq @ py_str sla_name @ sq
                          @ '' (Sys ID: '' @ py_str sys_id
                          @ ''). Conditions should be verified in ServiceNow UI.'')))))
                    (\<lambda>e. ''Error creating SLA Definition: '' @ e),
                  log'))"

section \<open>The composite tools\<close>

text \<open>
  \<^verbatim>\<open>create_record_producer\<close> and \<^verbatim>\<open>create_variable_set\<close> create a parent record and
  then one record for each variable definition.  The loop over the variables is
  the same text in both, up to the endpoint and the key under which the payload names the
  parent (\<^verbatim>\<open>cat_item\<close> or \<^verbatim>\<open>variable_set\<close>); it is one function here, with these
  two as parameters.  The table \<^verbatim>\<open>var_type_map\<close> is a local of both.
\<close>

definition var_type_map :: "(string \<times> string) list" where
  "var_type_map =
     [(''string'', ''2''),
      (''integer'', ''9''),
      (''boolean'', ''6''),
      (''reference'', ''8''),
      (''choice'', ''3''),
      (''text'', ''1''),
      (''date'', ''5''),
      (''datetime'', ''4''),
      (''currency'', ''10''),
      (''price'', ''7'')]"

text \<open>\<^verbatim>\<open>var_def.get('name', f'variable_{idx}')\<close>.\<close>

definition var_name :: "nat \<Rightarrow> pydict \<Rightarrow> json" where
  "var_name idx var_def = dict_get var_def ''name'' (JStr (''variable_'' @ str_nat idx))"

text \<open>
  The payload of one variable (lines 486 to 503 and 594 to 611).  \<^verbatim>\<open>.lower()\<close> on the
  \<^verbatim>\<open>type\<close> of the definition raises when that is not a string.
\<close>

definition var_payload :: "string \<Rightarrow> json \<Rightarrow> nat \<Rightarrow> pydict \<Rightarrow> exn + pydict" where
  "var_payload parent_key parent_sys_id idx var_def =
     bind (py_lower (dict_get var_def ''type'' (JStr ''string''))) (\<lambda>type_key.
     let var_payload =
           [(parent_key, parent_sys_id),
            (''name'', var_name idx var_def),
            (''question_text'',
               dict_get var_def ''label''
                 (dict_get var_def ''name'' (JStr (''Variable '' @ str_nat idx)))),
            (''type'', JStr (case map_of var_type_map type_key of None \<Rightarrow> ''2'' | Some c \<Rightarrow> c)),
            (''mandatory'', JStr (lower (py_str (dict_get var_def ''mandatory'' (JBool False))))),
            (''order'', JInt (int ((idx + 1) * 100))),
            (''help_text'', dict_get var_def ''help_text'' (JStr [])),
            (''description'', dict_get var_def ''description'' (JStr []))];
         var_payload =
           (case map_of var_def ''default_value'' of
              None \<Rightarrow> var_payload
            | Some v \<Rightarrow> AList.update ''default_value'' (JStr (py_str v)) var_payload)
     in bind (py_lower (dict_get var_def ''type'' (JStr []))) (\<lambda>t.
        Inr (case map_of var_def ''reference_table'' of
               None \<Rightarrow> var_payload
             | Some table \<Rightarrow>
                 if t = ''reference'' then AList.update ''reference'' table var_payload
                 else var_payload)))"

text \<open>
  One round of the loop over the variables: the payload, the call, the message for the
  item; a \<^verbatim>\<open>ValueError\<close> becomes the message of the item, any other exception leaves
  the loop.
\<close>

definition add_variable ::
  "network \<Rightarrow> string \<Rightarrow> string \<Rightarrow> json \<Rightarrow> nat \<Rightarrow> pydict \<Rightarrow> request list \<Rightarrow> tool_result" where
  "add_variable net var_endpoint parent_key parent_sys_id idx var_def log =
     (let quoted = sq @ py_str (var_name idx var_def) @ sq;
          on_error = (\<lambda>e. ''Error adding variable '' @ quoted @ '': '' @ e)
      in case var_payload parent_key parent_sys_id idx var_def of
           Inl e \<Rightarrow> (except_ValueError (Inl e) on_error, log)
         | Inr payload \<Rightarrow>
             (case make_servicenow_request net var_endpoint payload ''POST'' log of
                (r, log') \<Rightarrow>
                  (except_ValueError
                     (bind r (\<lambda>var_result.
                      bind (py_get var_result ''sys_id'' JNull) (\<lambda>sys_id.
                      Inr (if truthy sys_id then ''Added variable '' @ quoted
                           else ''Failed to add variable '' @ quoted))))
                     on_error,
                   log')))"

text \<open>\<^verbatim>\<open>for idx, var_def in enumerate(variables)\<close>, from index \<open>idx\<close> on.\<close>

fun add_variables ::
  "network \<Rightarrow> string \<Rightarrow> string \<Rightarrow> json \<Rightarrow> nat \<Rightarrow> pydict list \<Rightarrow> string list \<Rightarrow> request list
   \<Rightarrow> (exn + string list) \<times> request list" where
  "add_variables net var_endpoint parent_key parent_sys_id idx [] variable_messages log =
     (Inr variable_messages, log)"
| "add_variables net var_endpoint parent_key parent_sys_id idx (var_def # rest) variable_messages log =
     (case add_variable net var_endpoint parent_key parent_sys_id idx var_def log of
        (Inl e, log') \<Rightarrow> (Inl e, log')
      | (Inr msg, log') \<Rightarrow>
          add_variables net var_endpoint parent_key parent_sys_id (Suc idx) rest
            (variable_messages @ [msg]) log')"

text \<open>One round of the loop over the variable sets of a record producer.\<close>

definition add_variable_set :: "network \<Rightarrow> json \<Rightarrow> string \<Rightarrow> request list \<Rightarrow> tool_result" where
  "add_variable_set net producer_sys_id set_id log =
     (let set_endpoint = ''api/now/table/io_set_item'';
          set_payload = [(''sc_cat_item'', producer_sys_id), (''variable_set'', JStr set_id)]
      in case make_servicenow_request net set_endpoint set_payload ''POST'' log of
           (r, log') \<Rightarrow>
             (except_ValueError
                (bind r (\<lambda>set_result.
                 bind (py_get set_result ''sys_id'' JNull) (\<lambda>sys_id.
                 Inr (if truthy sys_id then ''Added variable set (ID: '' @ set_id @ '')''
                      else ''Failed to add variable set (ID: '' @ set_id @ '')''))))
                (\<lambda>e. ''Error adding variable set (ID: '' @ set_id @ ''): '' @ e),
              log'))"

fun add_variable_sets ::
  "network \<Rightarrow> json \<Rightarrow> string list \<Rightarrow> string list \<Rightarrow> request list
   \<Rightarrow> (exn + string list) \<times> request list" where
  "add_variable_sets net producer_sys_id [] variable_set_messages log =
     (Inr variable_set_messages, log)"
| "add_variable_sets net producer_sys_id (set_id # rest) variable_set_messages log =
     (case add_variable_set net producer_sys_id set_id log of
        (Inl e, log') \<Rightarrow> (Inl e, log')
      | (Inr msg, log') \<Rightarrow>
          add_variable_sets net producer_sys_id rest (variable_set_messages @ [msg]) log')"

text \<open>
  An optional list argument as the list the loop runs over: the guard
  \<^verbatim>\<open>if xs and len(xs) > 0\<close> only skips a loop that would not run.
\<close>

definition opt_list :: "'a list option \<Rightarrow> 'a list" where
  "opt_list a = (case a of None \<Rightarrow> [] | Some xs \<Rightarrow> xs)"

abbreviation nl :: string where
  "nl \<equiv> [CHR 0x0A]"

text \<open>Lines 514 to 524, the message of \<^verbatim>\<open>create_record_producer\<close>.\<close>

definition producer_message ::
  "json \<Rightarrow> json \<Rightarrow> string list \<Rightarrow> string list \<Rightarrow> pydict list \<Rightarrow> string" where
  "producer_message producer_name producer_sys_id variable_set_messages variable_messages variables =
     (let msg = ''Successfully created Record Producer '' @ sq @ py_str producer_name @ sq
                @ '' (Sys ID: '' @ py_str producer_sys_id @ '').'';
          msg = (if variable_set_messages \<noteq> []
                 then msg @ nl @ ''Variable Sets: '' @ join ''; '' variable_set_messages
                 else msg)
      in if variable_messages \<noteq> [] then msg @ nl @ ''Variables: '' @ join ''; '' variable_messages
         else if variable_set_messages = [] \<and> variables = [] then msg @ '' No variables were added.''
         else msg)"

definition record_producer_payload ::
  "string \<Rightarrow> string \<Rightarrow> string option \<Rightarrow> string option \<Rightarrow> string option \<Rightarrow> pydict" where
  "record_producer_payload name table_name short_description category_sys_id script =
     (let payload = [(''name'', JStr name),
                     (''table_name'', JStr table_name),
                     (''short_description'', JStr (or_else short_description name)),
                     (''active'', JStr ''true''),
                     (''sys_class_name'', JStr ''sc_cat_item_producer'')];
          payload = set_if_given ''category'' category_sys_id payload
      in set_if_given ''script'' script payload)"

definition create_record_producer ::
  "network \<Rightarrow> string \<Rightarrow> string \<Rightarrow> string option \<Rightarrow> string option \<Rightarrow> string option
   \<Rightarrow> pydict list option \<Rightarrow> string list option \<Rightarrow> request list \<Rightarrow> tool_result" where
  "create_record_producer net name table_name short_description category_sys_id script
     variables variable_set_ids log =
     (let endpoint = ''api/now/table/sc_cat_item_producer'';
          payload = record_producer_payload name table_name short_description category_sys_id
                      script;
          on_error = (\<lambda>e. ''Error creating Record Producer: '' @ e)
      in case make_servicenow_request net endpoint payload ''POST'' log of
           (Inl e, log1) \<Rightarrow> (except_ValueError (Inl e) on_error, log1)
         | (Inr result, log1) \<Rightarrow>
             (case py_get result ''name'' (JStr name) of
                Inl e \<Rightarrow> (except_ValueError (Inl e) on_error, log1)
              | Inr producer_name \<Rightarrow>
             (case py_get result ''sys_id'' (JStr []) of
                Inl e \<Rightarrow> (except_ValueError (Inl e) on_error, log1)
              | Inr producer_sys_id \<Rightarrow>
                  if \<not> truthy producer_sys_id then
                    (Inr ''Error creating Record Producer: No sys_id returned from ServiceNow.'',
                     log1)
                  else
                    (case add_variable_sets net producer_sys_id (opt_list variable_set_ids) [] log1 of
                       (Inl e, log2) \<Rightarrow> (except_ValueError (Inl e) on_error, log2)
                     | (Inr variable_set_messages, log2) \<Rightarrow>
                         (case add_variables net ''api/now/table/item_option_new'' ''cat_item''
                                 producer_sys_id 0 (opt_list variables) [] log2 of
                            (Inl e, log3) \<Rightarrow> (except_ValueError (Inl e) on_error, log3)
                          | (Inr variable_messages, log3) \<Rightarrow>
                              (Inr (producer_message producer_name producer_sys_id
                                      variable_set_messages variable_messages (opt_list variables)),
                               log3))))))"

text \<open>Lines 622 to 629, the message of \<^verbatim>\<open>create_variable_set\<close>.\<close>

definition variable_set_message :: "json \<Rightarrow> json \<Rightarrow> string list \<Rightarrow> string" where
  "variable_set_message set_name set_sys_id variable_messages =
     (let msg = ''Successfully created Variable Set '' @ sq @ py_str set_name @ sq
                @ '' (Sys ID: '' @ py_str set_sys_id @ '').''
      in if variable_messages \<noteq> [] then msg @ nl @ ''Variables: '' @ join ''; '' variable_messages
         else msg @ '' No variables were added.'')"

definition variable_set_payload :: "string \<Rightarrow> string option \<Rightarrow> pydict" where
  "variable_set_payload name description =
     [(''name'', JStr name),
      (''description'', JStr (or_else description name)),
      (''active'', JStr ''true'')]"

definition create_variable_set ::
  "network \<Rightarrow> string \<Rightarrow> string option \<Rightarrow> pydict list option \<Rightarrow> request list \<Rightarrow> tool_result" where
  "create_variable_set net name description variables log =
     (let endpoint = ''api/now/table/io_set'';
          payload = variable_set_payload name description;
          on_error = (\<lambda>e. ''Error creating Variable Set: '' @ e)
      in case make_servicenow_request net endpoint payload ''POST'' log of
           (Inl e, log1) \<Rightarrow> (except_ValueError (Inl e) on_error, log1)
         | (Inr result, log1) \<Rightarrow>
             (case py_get result ''name'' (JStr name) of
                Inl e \<Rightarrow> (except_ValueError (Inl e) on_error, log1)
              | Inr set_name \<Rightarrow>
             (case py_get result ''sys_id'' (JStr []) of
                Inl e \<Rightarrow> (except_ValueError (Inl e) on_error, log1)
              | Inr set_sys_id \<Rightarrow>
                  if \<not> truthy set_sys_id then
                    (Inr ''Error creating Variable Set: No sys_id returned from ServiceNow.'', log1)
                  else
                    (case add_variables net ''api/now/table/io_set_variable'' ''variable_set''
                            set_sys_id 0 (opt_list variables) [] log1 of
                       (Inl e, log2) \<Rightarrow> (except_ValueError (Inl e) on_error, log2)
                     | (Inr variable_messages, log2) \<Rightarrow>
                         (Inr (variable_set_message set_name set_sys_id variable_messages),
                          log2)))))"

section \<open>The listing tools\<close>

text \<open>
  \<^verbatim>\<open>k in v\<close>, \<^verbatim>\<open>v[k]\<close> for a string \<^verbatim>\<open>k\<close>, \<^verbatim>\<open>for x in v\<close> and \<^verbatim>\<open>len(v)\<close> on a value
  whose type the program does not check.
\<close>

definition py_contains :: "string \<Rightarrow> json \<Rightarrow> exn + bool" where
  "py_contains k v =
     (case v of
        JObj d \<Rightarrow> Inr (k \<in> fst ` set d)
      | JArr xs \<Rightarrow> Inr (JStr k \<in> set xs)
      | JStr s \<Rightarrow> Inr (sublist k s)
      | _ \<Rightarrow> Inl (TypeError (''argument of type '' @ sq @ type_name v @ sq @ '' is not iterable'')))"

definition py_subscript :: "json \<Rightarrow> string \<Rightarrow> exn + json" where
  "py_subscript v k =
     (case v of
        JObj d \<Rightarrow> (case map_of d k of None \<Rightarrow> Inl (KeyError (repr_str k)) | Some x \<Rightarrow> Inr x)
      | JArr _ \<Rightarrow> Inl (TypeError ''list indices must be integers or slices, not str'')
      | JStr _ \<Rightarrow> Inl (TypeError (''string indices must be integers, not '' @ sq @ ''str'' @ sq))
      | _ \<Rightarrow> Inl (TypeError (sq @ type_name v @ sq @ '' object is not subscriptable'')))"

definition py_iter :: "json \<Rightarrow> exn + json list" where
  "py_iter v =
     (case v of
        JArr xs \<Rightarrow> Inr xs
      | JObj d \<Rightarrow> Inr (map (\<lambda>kv. JStr (fst kv)) d)
      | JStr s \<Rightarrow> Inr (map (\<lambda>c. JStr [c]) s)
      | _ \<Rightarrow> Inl (TypeError (sq @ type_name v @ sq @ '' object is not iterable'')))"

definition py_len :: "json \<Rightarrow> exn + nat" where
  "py_len v =
     (case v of
        JArr xs \<Rightarrow> Inr (length xs)
      | JObj d \<Rightarrow> Inr (length d)
      | JStr s \<Rightarrow> Inr (length s)
      | _ \<Rightarrow> Inl (TypeError (''object of type '' @ sq @ type_name v @ sq @ '' has no len()'')))"

text \<open>The bullet that starts the line of a record, in UTF-8.\<close>

definition bullet :: string where
  "bullet = [CHR 0xE2, CHR 0x80, CHR 0xA2]"

text \<open>
  The line of one record: four fields, each a key with its fallback, the last two after
  a label.
\<close>

type_synonym field = "string \<times> string"

definition get_field :: "json \<Rightarrow> field \<Rightarrow> exn + json" where
  "get_field rec f = py_get rec (fst f) (JStr (snd f))"

definition format_record ::
  "field \<Rightarrow> field \<Rightarrow> string \<Rightarrow> field \<Rightarrow> string \<Rightarrow> field \<Rightarrow> json \<Rightarrow> exn + string" where
  "format_record f1 f2 l3 f3 l4 f4 rec =
     bind (get_field rec f1) (\<lambda>v1.
     bind (get_field rec f2) (\<lambda>v2.
     bind (get_field rec f3) (\<lambda>v3.
     bind (get_field rec f4) (\<lambda>v4.
     Inr (bullet @ '' '' @ py_str v1 @ '': '' @ py_str v2 @ '' ('' @ l3 @ '': '' @ py_str v3
          @ '', '' @ l4 @ '': '' @ py_str v4 @ '')'')))))"

fun format_all :: "(json \<Rightarrow> exn + string) \<Rightarrow> json list \<Rightarrow> exn + string list" where
  "format_all f [] = Inr []"
| "format_all f (x # xs) =
     bind (f x) (\<lambda>line. bind (format_all f xs) (\<lambda>lines. Inr (line # lines)))"

text \<open>
  The three listing tools are the same text up to the table, the noun of their messages
  and the fields of a line.
\<close>

definition list_tool ::
  "network \<Rightarrow> string \<Rightarrow> string \<Rightarrow> (json \<Rightarrow> exn + string) \<Rightarrow> int \<Rightarrow> request list \<Rightarrow> tool_result" where
  "list_tool net table noun fmt limit log =
     (let limit = (if limit > 100 then 100 else limit) in
      case sn_get net table limit log of
        (r, log') \<Rightarrow>
          (except_ValueError
             (bind r (\<lambda>result.
              bind (if \<not> truthy result then Inr True
                    else bind (py_contains ''result'' result) (\<lambda>c. Inr (\<not> c))) (\<lambda>none.
              if none then Inr (''No '' @ noun @ '' found or error retrieving '' @ noun @ ''.'')
              else
                bind (py_subscript result ''result'') (\<lambda>records.
                if \<not> truthy records then Inr (''No '' @ noun @ '' found.'')
                else
                  bind (py_iter records) (\<lambda>items.
                  bind (format_all fmt items) (\<lambda>formatted.
                  bind (py_len records) (\<lambda>n.
                  Inr (''Retrieved '' @ str_nat n @ '' '' @ noun @ '':'' @ nl
                       @ join nl formatted))))))))
             (\<lambda>e. ''Error retrieving '' @ noun @ '': '' @ e),
           log'))"

definition get_incidents :: "network \<Rightarrow> int \<Rightarrow> request list \<Rightarrow> tool_result" where
  "get_incidents net limit log =
     list_tool net ''incident'' ''incidents''
       (format_record (''number'', ''N/A'') (''short_description'', ''No description'')
          ''State'' (''state'', ''N/A'') ''Priority'' (''priority'', ''N/A''))
       limit log"

definition get_change_requests :: "network \<Rightarrow> int \<Rightarrow> request list \<Rightarrow> tool_result" where
  "get_change_requests net limit log =
     list_tool net ''change_request'' ''change requests''
       (format_record (''number'', ''N/A'') (''short_description'', ''No description'')
          ''State'' (''state'', ''N/A'') ''Risk'' (''risk'', ''N/A''))
       limit log"

definition get_users :: "network \<Rightarrow> int \<Rightarrow> request list \<Rightarrow> tool_result" where
  "get_users net limit log =
     list_tool net ''sys_user'' ''users''
       (format_record (''user_name'', ''N/A'') (''name'', ''No name'')
          ''Email'' (''email'', ''N/A'') ''Active'' (''active'', ''N/A''))
       limit log"

section \<open>Remote sides to run the tools against\<close>

text \<open>
  The text of a JSON value, as the remote instance writes it into a body
  (the separators of \<^verbatim>\<open>json.dumps\<close>), and the response that carries a value.
\<close>

abbreviation dq :: string where
  "dq \<equiv> [CHR 0x22]"

definition json_text_char :: "char \<Rightarrow> string" where
  "json_text_char c =
     (let n = (of_char c :: nat) in
      if c = CHR 0x22 \<or> c = CHR 0x5C then [CHR 0x5C, c]
      else if n = 9 then [CHR 0x5C, CHR ''t'']
      else if n = 10 then [CHR 0x5C, CHR ''n'']
      else if n = 13 then [CHR 0x5C, CHR ''r'']
      else if n < 32 then [CHR 0x5C, CHR ''u'', CHR ''0'', CHR ''0'', hex_char (n div 16), hex_char n]
      else [c])"

definition json_text_str :: "string \<Rightarrow> string" where
  "json_text_str s = dq @ concat (map json_text_char s) @ dq"

primrec json_text :: "json \<Rightarrow> string" where
  "json_text JNull = ''null''"
| "json_text (JBool b) = (if b then ''true'' else ''false'')"
| "json_text (JInt i) = str_int i"
| "json_text (JFloat r) = r"
| "json_text (JStr s) = json_text_str s"
| "json_text (JArr xs) = ''['' @ join '', '' (map json_text xs) @ '']''"
| "json_text (JObj kvs) =
     ''{'' @ join '', '' (map (\<lambda>kv. json_text_str (fst kv) @ '': '' @ snd kv)
                             (map (map_prod id json_text) kvs)) @ ''}''"

definition json_response :: "nat \<Rightarrow> json \<Rightarrow> response" where
  "json_response status v = \<lparr>status_code = status, body_text = json_text v, body_json = Inr v\<rparr>"

text \<open>The answer to a creation: status 201 and the record under \<^verbatim>\<open>result\<close>.\<close>

definition created :: "pydict \<Rightarrow> http_outcome" where
  "created record = Response (json_response 201 (JObj [(''result'', JObj record)]))"

text \<open>A remote side that answers every call alike.\<close>

definition always :: "http_outcome \<Rightarrow> network" where
  "always out = (\<lambda>n req. out)"

text \<open>
  A remote side that refuses one record with status 400 and the error object of the
  Table API.
\<close>

definition api_error :: response where
  "api_error =
     json_response 400 (JObj [(''error'', JObj [(''message'', JStr ''M''), (''detail'', JStr ''D'')])])"

section \<open>Notions of the specification\<close>

text \<open>
  The words of the specification that the theorems below use.  An identifier of a
  created record as a confirmation shows it: the text of the value under the key, or
  the placeholder when the key is missing.
\<close>

definition identifier_or_unknown :: "pydict \<Rightarrow> string \<Rightarrow> string" where
  "identifier_or_unknown result key =
     (case map_of result key of None \<Rightarrow> ''UNKNOWN'' | Some v \<Rightarrow> py_str v)"

text \<open>
  A successful remote 201 response with a record: the mapping under \<^verbatim>\<open>result\<close> of
  the parsed body, when the outcome of a call is such a response.
\<close>

definition created_record :: "http_outcome \<Rightarrow> pydict option" where
  "created_record out =
     (case out of
        Response r \<Rightarrow>
          if status_code r = 201 then
            (case body_json r of
               Inr (JObj body) \<Rightarrow>
                 (case map_of body ''result'' of
                    Some (JObj result) \<Rightarrow> Some result
                  | _ \<Rightarrow> None)
             | _ \<Rightarrow> None)
          else None
      | _ \<Rightarrow> None)"

text \<open>
  A variable definition whose \<^verbatim>\<open>type\<close> is a type name (a string) or is omitted.
\<close>

definition text_typed :: "pydict \<Rightarrow> bool" where
  "text_typed var_def =
     (case map_of var_def ''type'' of None \<Rightarrow> True | Some (JStr _) \<Rightarrow> True | Some _ \<Rightarrow> False)"

text \<open>
  What the helper gives for a dependent creation that fails or succeeds: its typed
  error, or the mapping of the record.  The creation of an item succeeded when the
  mapping has a \<^verbatim>\<open>sys_id\<close>.
\<close>

definition mapping_or_error :: "exn + json \<Rightarrow> bool" where
  "mapping_or_error r = (case r of Inl _ \<Rightarrow> True | Inr (JObj _) \<Rightarrow> True | Inr _ \<Rightarrow> False)"

definition item_succeeded :: "exn + json \<Rightarrow> bool" where
  "item_succeeded r =
     (case r of Inr (JObj d) \<Rightarrow> truthy (dict_get d ''sys_id'' JNull) | _ \<Rightarrow> False)"

text \<open>
  The message of an item reports its own outcome: the success marker and the quoted
  name for an item that succeeded, a failure marker and the quoted name otherwise.
\<close>

definition item_reported :: "exn + json \<Rightarrow> string \<Rightarrow> string \<Rightarrow> bool" where
  "item_reported outcome quoted msg =
     (if item_succeeded outcome then msg = ''Added variable '' @ quoted
      else prefix (''Failed to add variable '' @ quoted) msg
           \<or> prefix (''Error adding variable '' @ quoted) msg)"

text \<open>
  What the helper gave for the \<open>n\<close>-th request of a run, from the remote side and the
  requests the run sent.
\<close>

definition outcome_of :: "network \<Rightarrow> request list \<Rightarrow> nat \<Rightarrow> exn + json" where
  "outcome_of net reqs n = handle (normalized (net n (reqs ! n)))"

text \<open>
  A remote side that creates every record but times out on the third call of a run.
\<close>

definition third_call_times_out :: network where
  "third_call_times_out =
     (\<lambda>n req. if n = 2 then RequestError ''timed out''
              else created [(''name'', JStr ''Laptop''), (''sys_id'', JStr ''abc'')])"

text \<open>A remote side that creates every record, with a number and a sys_id.\<close>

definition created_with_number :: network where
  "created_with_number = always (created [(''number'', JStr ''X0001''), (''sys_id'', JStr ''abc'')])"



text \<open>
  A remote side that creates every record but answers the second call of a run with
  status 201 and the body \<^verbatim>\<open>{"result": null}\<close>.
\<close>

definition second_call_gives_null :: network where
  "second_call_gives_null =
     (\<lambda>n req. if n = 1 then Response (json_response 201 (JObj [(''result'', JNull)]))
              else created [(''number'', JStr ''X0001''), (''name'', JStr ''Laptop''),
                            (''sys_id'', JStr ''abc'')])"

text \<open>A remote side that creates every record, with a number and the sys_id 0.\<close>

definition created_with_zero_sys_id :: network where
  "created_with_zero_sys_id =
     always (created [(''number'', JStr ''X0001''), (''sys_id'', JInt 0)])"

text \<open>
  A remote side that creates every record but answers the third call of a run with
  status 201 and the body \<^verbatim>\<open>{"result": null}\<close>.
\<close>

definition third_call_gives_null :: network where
  "third_call_gives_null =
     (\<lambda>n req. if n = 2 then Response (json_response 201 (JObj [(''result'', JNull)]))
              else created [(''name'', JStr ''Laptop''), (''sys_id'', JStr ''abc'')])"

section \<open>Evaluation\<close>

text \<open>
  The equations that evaluate the printing of a number, and the definitions that the
  simplifier unfolds to run a tool on a concrete remote side.
\<close>

lemma str_nat_small: "n < 10 \<Longrightarrow> str_nat n = [digit_char n]"
  by (simp add: str_nat.simps)

lemma str_nat_big: "\<not> n < 10 \<Longrightarrow> str_nat n = str_nat (n div 10) @ [digit_char n]"
  by (subst str_nat.simps) simp

lemmas print_defs =
  str_int_def str_nat_small str_nat_big digit_char_def pad2_def py_str_def lower_def
  lower_char_def bool_lower_def repr_str_def repr_char_def hex_char_def

lemmas value_defs =
  py_get_def dict_get_def py_lower_def no_attribute_def type_name_def truthy_def
  truthy_opt_def opt_json_def bind_def except_ValueError_def class_name_def message_def
  or_else_def set_if_given_def opt_list_def

lemmas remote_defs =
  json_response_def created_def always_def json_text_str_def json_text_char_def

lemmas payload_defs =
  incident_payload_def kb_article_payload_def client_script_payload_def
  business_rule_payload_def sla_payload_def record_producer_payload_def
  variable_set_payload_def

lemmas helper_defs =
  make_servicenow_request_def handle_def normalized_def is_success_def
  json_result_def on_http_status_error_def parse_sn_error_def http_error_details_def

section \<open>The transport helper: what it raises\<close>

text \<open>
  Whatever happens inside the helper, the exception that leaves it is a
  \<^verbatim>\<open>ValueError\<close>; for a status that is not 2xx its message is the status and the text
  of the body, whatever the body holds.
\<close>

lemma helper_raises_only_ValueError:
  "handle t = Inl e \<Longrightarrow> \<exists>m. e = ValueError m"
  by (auto simp: handle_def on_http_status_error_def Let_def
           split: sum.splits raised.splits exn.splits)

lemma helper_status_error:
  "\<not> is_success r \<Longrightarrow>
   handle (normalized (Response r)) = Inl (ValueError (http_error_details r))"
  by (simp add: handle_def normalized_def on_http_status_error_def Let_def split: exn.splits)

text \<open>
  C1.  The claim: for a 4xx or 5xx response whose body is JSON with an \<^verbatim>\<open>error\<close> object,
  the helper fails with a message built from the \<^verbatim>\<open>message\<close> and \<^verbatim>\<open>detail\<close> of that
  object.  The code builds that message (\<open>parse_sn_error\<close> gives it) and raises it inside
  the \<^verbatim>\<open>try\<close> whose \<^verbatim>\<open>except Exception\<close> catches it again, so what leaves the helper
  for the body \<^verbatim>\<open>{"error": {"message": "M", "detail": "D"}}\<close> with status 400 is the
  status and the raw text of the body.
\<close>

theorem api_error_message_is_raw_body:
  "parse_sn_error api_error = ValueError ''ServiceNow API Error: M - D'' \<and>
   make_servicenow_request (always (Response api_error)) ''api/now/table/incident'' [] ''POST'' []
   = (Inl (ValueError (''HTTP Error: 400 - {'' @ dq @ ''error'' @ dq @ '': {'' @ dq @ ''message''
                       @ dq @ '': '' @ dq @ ''M'' @ dq @ '', '' @ dq @ ''detail'' @ dq @ '': ''
                       @ dq @ ''D'' @ dq @ ''}}'')),
      [\<lparr>req_method = ''POST'', req_endpoint = ''api/now/table/incident'', req_payload = []\<rparr>])"
  by (simp add: api_error_def helper_defs remote_defs value_defs print_defs)

section \<open>The duration of an SLA\<close>

text \<open>
  C3.  The claim: every non-negative \<^verbatim>\<open>duration_seconds\<close> is sent as
  \<^verbatim>\<open>1970-01-01 HH:MM:SS\<close>.  For one day, 86400 seconds, the text of the \<^verbatim>\<open>timedelta\<close>
  starts with the days, and the payload of \<^verbatim>\<open>create_sla_definition\<close> carries
  \<^verbatim>\<open>1970-01-01 1 day, 0:00:00\<close>.
\<close>

theorem glide_duration_of_one_day:
  "glide_duration 86400 = Inr ''1970-01-01 1 day, 0:00:00'' \<and>
   snd (create_sla_definition (always (created [(''sys_id'', JStr ''abc'')]))
          ''P1'' ''incident'' 86400 None None None [])
   = [\<lparr>req_method = ''POST'', req_endpoint = ''api/now/table/contract_sla'',
       req_payload = [(''name'', JStr ''P1''),
                      (''target_table'', JStr ''incident''),
                      (''duration'', JStr ''1970-01-01 1 day, 0:00:00''),
                      (''duration_type'', JStr ''glide_duration''),
                      (''type'', JStr ''SLA''),
                      (''active'', JStr ''true'')]\<rparr>]"
  by (simp add: create_sla_definition_def glide_duration_def timedelta_str_def zfill_def
        before_dot_def helper_defs payload_defs remote_defs value_defs print_defs Let_def)

text \<open>The example of the comment in the code, eight hours.\<close>

lemma glide_duration_of_eight_hours:
  "glide_duration 28800 = Inr ''1970-01-01 08:00:00''"
  by (simp add: glide_duration_def timedelta_str_def zfill_def before_dot_def value_defs
        print_defs Let_def)

text \<open>
  Below one day the form holds: two digits for the hours, the minutes and the seconds.
  The text of a number has digits only, so \<^verbatim>\<open>split('.')\<close> changes nothing, and
  \<^verbatim>\<open>zfill(8)\<close> adds the zero that hours below ten lack.
\<close>

lemma digit_char_digit: "digit_char n \<in> set ''0123456789''"
proof -
  have "n mod 10 < length ''0123456789''" by simp
  then show ?thesis unfolding digit_char_def by (rule nth_mem)
qed

lemma str_nat_digits: "set (str_nat n) \<subseteq> set ''0123456789''"
proof (induction n rule: str_nat.induct)
  case (1 n)
  show ?case
  proof (cases "n < 10")
    case True
    then show ?thesis using digit_char_digit [of n] by (simp add: str_nat_small)
  next
    case False
    then show ?thesis using 1 digit_char_digit [of n] by (simp add: str_nat_big)
  qed
qed

lemma length_str_nat:
  "n < 10 \<Longrightarrow> length (str_nat n) = 1"
  "10 \<le> n \<Longrightarrow> n < 100 \<Longrightarrow> length (str_nat n) = 2"
  by (simp_all add: str_nat_small str_nat_big)

lemma length_pad2: "n < 100 \<Longrightarrow> length (pad2 n) = 2"
  by (cases "n < 10") (simp_all add: pad2_def length_str_nat)

lemma no_dot_str_nat: "CHR ''.'' \<notin> set (str_nat n)"
  using str_nat_digits [of n] by auto

lemma no_dot_pad2: "CHR ''.'' \<notin> set (pad2 n)"
  using no_dot_str_nat [of n] by (simp add: pad2_def)

lemma before_dot_all: "CHR ''.'' \<notin> set s \<Longrightarrow> before_dot s = s"
  unfolding before_dot_def by (rule takeWhile_eq_all_conv [THEN iffD2]) auto

lemma glide_duration_within_a_day:
  assumes "0 \<le> d" and "d < 86400"
  shows "glide_duration d
         = Inr (''1970-01-01 '' @ pad2 (nat d div 3600) @ '':'' @ pad2 (nat d div 60 mod 60)
                @ '':'' @ pad2 (nat d mod 60))"
proof -
  let ?hh = "nat d div 60 div 60" and ?mm = "nat d div 60 mod 60" and ?ss = "nat d mod 60"
  let ?s = "str_nat ?hh @ '':'' @ pad2 ?mm @ '':'' @ pad2 ?ss"
  from assms have days: "d div 86400 = 0" and secs: "nat (d mod 86400) = nat d" by simp_all
  have td: "timedelta_str d = Inr ?s"
    by (simp add: timedelta_str_def Let_def days secs)
  have "CHR ''.'' \<notin> set ?s"
    by (simp add: no_dot_str_nat no_dot_pad2)
  then have dot: "before_dot ?s = ?s" by (rule before_dot_all)
  have hh: "?hh < 24" using assms by simp
  have hh3600: "?hh = nat d div 3600" by (simp add: div_mult2_eq)
  have len_rest: "length (pad2 ?mm) = 2" "length (pad2 ?ss) = 2"
    by (simp_all add: length_pad2)
  have "zfill 8 ?s = pad2 ?hh @ '':'' @ pad2 ?mm @ '':'' @ pad2 ?ss"
  proof (cases "?hh < 10")
    case True
    then have s: "str_nat ?hh = [digit_char ?hh]" by (simp add: str_nat_small)
    have "digit_char ?hh \<noteq> CHR ''+'' \<and> digit_char ?hh \<noteq> CHR ''-''"
      using digit_char_digit [of ?hh] by auto
    with True s len_rest show ?thesis
      by (simp add: zfill_def pad2_def)
  next
    case False
    with hh have "length (str_nat ?hh) = 2" by (simp add: length_str_nat)
    with False len_rest show ?thesis
      by (simp add: zfill_def pad2_def)
  qed
  with td dot show ?thesis
    by (simp add: glide_duration_def bind_def hh3600)
qed

section \<open>Exceptions that leave a tool\<close>

text \<open>
  C4.  The claim: whatever the outcome of the HTTP call, a tool returns a string and no
  exception reaches its caller.  The tools catch \<^verbatim>\<open>ValueError\<close> only.  When the remote
  side answers a creation with status 201 and the body \<^verbatim>\<open>{"result": null}\<close>, the helper
  returns \<^verbatim>\<open>None\<close>, and \<^verbatim>\<open>result.get\<close> in \<^verbatim>\<open>create_incident\<close> raises an
  \<^verbatim>\<open>AttributeError\<close> that leaves the tool.
\<close>

theorem create_incident_null_result_raises:
  "create_incident (always (Response (json_response 201 (JObj [(''result'', JNull)]))))
     ''Printer down'' None None (Some ''3'') (Some ''3'') []
   = (Inl (AttributeError (sq @ ''NoneType'' @ sq @ '' object has no attribute '' @ sq @ ''get'' @ sq)),
      [\<lparr>req_method = ''POST'', req_endpoint = ''api/now/table/incident'',
        req_payload = [(''short_description'', JStr ''Printer down''),
                       (''description'', JStr ''Printer down''),
                       (''urgency'', JStr ''3''),
                       (''impact'', JStr ''3'')]\<rparr>])"
  by (simp add: create_incident_def helper_defs payload_defs remote_defs value_defs print_defs)

text \<open>
  Two more exceptions that leave a tool, on answers of the remote side that are as
  expected: a variable definition whose \<^verbatim>\<open>type\<close> is a number, and a duration of more
  days than a \<^verbatim>\<open>timedelta\<close> holds.
\<close>

lemma create_record_producer_numeric_type_raises:
  "fst (create_record_producer (always (created [(''sys_id'', JStr ''abc'')]))
          ''Laptop'' ''incident'' None None None
          (Some [ [(''name'', JStr ''ram''), (''type'', JInt 5)]]) None [])
   = Inl (AttributeError (sq @ ''int'' @ sq @ '' object has no attribute '' @ sq @ ''lower'' @ sq))"
  by (simp add: create_record_producer_def add_variable_def var_payload_def var_name_def
        helper_defs payload_defs remote_defs value_defs print_defs)

lemma create_sla_definition_overflow_raises:
  "create_sla_definition net ''P1'' ''incident'' 100000000000000 None None None []
   = (Inl (OverflowError ''days=1157407407; must have magnitude <= 999999999''), [])"
  by (simp add: create_sla_definition_def glide_duration_def timedelta_str_def value_defs
        print_defs Let_def)

section \<open>Validation before the call\<close>

text \<open>
  C7.  \<^verbatim>\<open>create_client_script\<close> with \<^verbatim>\<open>script_type="onChange"\<close> and a \<^verbatim>\<open>field_name\<close>
  that is \<^verbatim>\<open>None\<close> or empty returns the validation error, and the requests sent are
  those sent before: the transport helper is not called.
\<close>

theorem create_client_script_onChange_needs_field_name:
  assumes "\<not> truthy_opt field_name"
  shows "create_client_script net name table script ui_type ''onChange'' field_name is_active log
         = (Inr (''Error: '' @ sq @ ''field_name'' @ sq @ '' is required when script_type is ''
                 @ sq @ ''onChange'' @ sq @ ''.''), log)"
  using assms by (simp add: create_client_script_def)

theorem create_client_script_onChange_needs_field_name_witness:
  "\<not> truthy_opt None \<and> \<not> truthy_opt (Some []) \<and>
   create_client_script (always (created [(''sys_id'', JStr ''abc'')]))
     ''check'' ''incident'' ''function onChange() {}'' ''all'' ''onChange'' None True []
   = (Inr (''Error: '' @ sq @ ''field_name'' @ sq @ '' is required when script_type is ''
           @ sq @ ''onChange'' @ sq @ ''.''), []) \<and>
   create_client_script (always (created [(''sys_id'', JStr ''abc'')]))
     ''check'' ''incident'' ''function onChange() {}'' ''all'' ''onChange'' (Some []) True []
   = (Inr (''Error: '' @ sq @ ''field_name'' @ sq @ '' is required when script_type is ''
           @ sq @ ''onChange'' @ sq @ ''.''), [])"
proof -
  have none: "\<not> truthy_opt None" and empty: "\<not> truthy_opt (Some [])"
    by (simp_all add: truthy_opt_def)
  show ?thesis
    using none empty
      create_client_script_onChange_needs_field_name [OF none]
      create_client_script_onChange_needs_field_name [OF empty]
    by simp
qed

section \<open>The limit of a listing\<close>

text \<open>
  C9.  Each listing tool sends one GET to the collection of its table, with
  \<^verbatim>\<open>sysparm_limit\<close> the smaller of the limit asked for and 100, and with
  \<^verbatim>\<open>sysparm_display_value=true\<close>.
\<close>

theorem listing_limit_is_clamped:
  "snd (get_incidents net limit log) =
     log @ [\<lparr>req_method = ''GET'', req_endpoint = ''api/now/table/incident'',
             req_payload = [(''sysparm_limit'', JInt (min limit 100)),
                            (''sysparm_display_value'', JStr ''true'')]\<rparr>] \<and>
   snd (get_change_requests net limit log) =
     log @ [\<lparr>req_method = ''GET'', req_endpoint = ''api/now/table/change_request'',
             req_payload = [(''sysparm_limit'', JInt (min limit 100)),
                            (''sysparm_display_value'', JStr ''true'')]\<rparr>] \<and>
   snd (get_users net limit log) =
     log @ [\<lparr>req_method = ''GET'', req_endpoint = ''api/now/table/sys_user'',
             req_payload = [(''sysparm_limit'', JInt (min limit 100)),
                            (''sysparm_display_value'', JStr ''true'')]\<rparr>]"
  by (simp add: get_incidents_def get_change_requests_def get_users_def list_tool_def sn_get_def
        make_servicenow_request_def Let_def min_def split: prod.splits)

section \<open>The calls of a run\<close>

text \<open>
  A POST through the helper adds its request to the requests sent and gives what the
  handlers make of the outcome.
\<close>

lemma post_result:
  "fst (make_servicenow_request net ep p ''POST'' log) = r \<Longrightarrow>
   make_servicenow_request net ep p ''POST'' log
   = (r, log @ [\<lparr>req_method = ''POST'', req_endpoint = ep, req_payload = p\<rparr>])"
  by (simp add: make_servicenow_request_def Let_def)

lemma post_unfold:
  "make_servicenow_request net ep p ''POST'' log
   = (handle (normalized (net (length log) \<lparr>req_method = ''POST'', req_endpoint = ep, req_payload = p\<rparr>)),
      log @ [\<lparr>req_method = ''POST'', req_endpoint = ep, req_payload = p\<rparr>])"
  by (simp add: make_servicenow_request_def Let_def)

text \<open>
  The loop of a composite tool, for variable definitions whose type is a type name
  and a remote side whose creations fail with the typed error or give a mapping: every
  item gets its call and its message, and the message reports the outcome of that call.
\<close>

lemma var_payload_text_typed:
  "text_typed var_def \<Longrightarrow> \<exists>p. var_payload pk sid idx var_def = Inr p"
  by (auto simp: text_typed_def var_payload_def dict_get_def py_lower_def bind_def Let_def
           split: option.splits json.splits)

lemma add_variable_step:
  assumes typed: "text_typed var_def"
      and shaped: "\<forall>n req. mapping_or_error (handle (normalized (net n req)))"
  shows "\<exists>p m. add_variable net ep pk sid idx var_def log
               = (Inr m, log @ [\<lparr>req_method = ''POST'', req_endpoint = ep, req_payload = p\<rparr>]) \<and>
             item_reported
               (handle (normalized (net (length log)
                  \<lparr>req_method = ''POST'', req_endpoint = ep, req_payload = p\<rparr>)))
               (sq @ py_str (var_name idx var_def) @ sq) m"
proof -
  obtain p where p: "var_payload pk sid idx var_def = Inr p"
    using var_payload_text_typed [OF typed] by blast
  let ?req = "\<lparr>req_method = ''POST'', req_endpoint = ep, req_payload = p\<rparr>"
  let ?r = "handle (normalized (net (length log) ?req))"
  have ok: "mapping_or_error ?r" using shaped by blast
  show ?thesis
  proof (cases ?r)
    case (Inl e)
    then obtain m where "e = ValueError m" using helper_raises_only_ValueError by blast
    with Inl p show ?thesis
      by (simp add: add_variable_def post_unfold Let_def bind_def except_ValueError_def
            item_reported_def item_succeeded_def)
  next
    case (Inr v)
    with ok obtain d where "v = JObj d"
      by (cases v) (simp_all add: mapping_or_error_def)
    with Inr p show ?thesis
      by (simp add: add_variable_def post_unfold Let_def bind_def except_ValueError_def
            item_reported_def item_succeeded_def py_get_def)
  qed
qed

lemma add_variables_run:
  assumes typed: "\<forall>vd \<in> set vars. text_typed vd"
      and shaped: "\<forall>n req. mapping_or_error (handle (normalized (net n req)))"
  shows "\<exists>ms reqs. add_variables net ep pk sid idx vars msgs log = (Inr (msgs @ ms), log @ reqs) \<and>
           length ms = length vars \<and> length reqs = length vars \<and>
           (\<forall>i < length vars.
              item_reported (handle (normalized (net (length log + i) (reqs ! i))))
                (sq @ py_str (var_name (idx + i) (vars ! i)) @ sq) (ms ! i))"
  using typed
proof (induction vars arbitrary: idx msgs log)
  case Nil
  then show ?case by simp
next
  case (Cons vd rest)
  from Cons.prems have vd: "text_typed vd" and rest: "\<forall>vd \<in> set rest. text_typed vd"
    by simp_all
  obtain p m where
    step: "add_variable net ep pk sid idx vd log
           = (Inr m, log @ [\<lparr>req_method = ''POST'', req_endpoint = ep, req_payload = p\<rparr>])"
    and rep: "item_reported
               (handle (normalized (net (length log)
                  \<lparr>req_method = ''POST'', req_endpoint = ep, req_payload = p\<rparr>)))
               (sq @ py_str (var_name idx vd) @ sq) m"
    using add_variable_step [OF vd shaped] by blast
  let ?req = "\<lparr>req_method = ''POST'', req_endpoint = ep, req_payload = p\<rparr>"
  obtain ms reqs where
    run: "add_variables net ep pk sid (Suc idx) rest (msgs @ [m]) (log @ [?req])
          = (Inr ((msgs @ [m]) @ ms), (log @ [?req]) @ reqs)"
    and len: "length ms = length rest" "length reqs = length rest"
    and each: "\<forall>i < length rest.
              item_reported (handle (normalized (net (length (log @ [?req]) + i) (reqs ! i))))
                (sq @ py_str (var_name (Suc idx + i) (rest ! i)) @ sq) (ms ! i)"
    using Cons.IH [OF rest] by blast
  have "add_variables net ep pk sid idx (vd # rest) msgs log
        = (Inr (msgs @ (m # ms)), log @ (?req # reqs))"
    using step run by simp
  moreover have "\<forall>i < length (vd # rest).
              item_reported (handle (normalized (net (length log + i) ((?req # reqs) ! i))))
                (sq @ py_str (var_name (idx + i) ((vd # rest) ! i)) @ sq) ((m # ms) ! i)"
  proof (intro allI impI)
    fix i assume "i < length (vd # rest)"
    then show "item_reported (handle (normalized (net (length log + i) ((?req # reqs) ! i))))
                (sq @ py_str (var_name (idx + i) ((vd # rest) ! i)) @ sq) ((m # ms) ! i)"
      using rep each by (cases i) simp_all
  qed
  ultimately show ?case using len
    by (intro exI [of _ "m # ms"] exI [of _ "?req # reqs"]) simp
qed

lemma add_variable_set_step:
  assumes shaped: "\<forall>n req. mapping_or_error (handle (normalized (net n req)))"
  shows "\<exists>m req. add_variable_set net sid set_id log = (Inr m, log @ [req])"
proof -
  let ?req = "\<lparr>req_method = ''POST'', req_endpoint = ''api/now/table/io_set_item'',
               req_payload = [(''sc_cat_item'', sid), (''variable_set'', JStr set_id)]\<rparr>"
  let ?r = "handle (normalized (net (length log) ?req))"
  have ok: "mapping_or_error ?r" using shaped by blast
  show ?thesis
  proof (cases ?r)
    case (Inl e)
    then obtain m where "e = ValueError m" using helper_raises_only_ValueError by blast
    with Inl show ?thesis
      by (simp add: add_variable_set_def post_unfold Let_def bind_def except_ValueError_def)
  next
    case (Inr v)
    with ok obtain d where "v = JObj d"
      by (cases v) (simp_all add: mapping_or_error_def)
    with Inr show ?thesis
      by (simp add: add_variable_set_def post_unfold Let_def bind_def except_ValueError_def
            py_get_def)
  qed
qed

lemma add_variable_sets_run:
  assumes shaped: "\<forall>n req. mapping_or_error (handle (normalized (net n req)))"
  shows "\<exists>ms reqs. add_variable_sets net sid ids msgs log = (Inr (msgs @ ms), log @ reqs) \<and>
           length ms = length ids \<and> length reqs = length ids"
proof (induction ids arbitrary: msgs log)
  case Nil
  then show ?case by simp
next
  case (Cons set_id rest)
  obtain m req where step: "add_variable_set net sid set_id log = (Inr m, log @ [req])"
    using add_variable_set_step [OF shaped] by blast
  obtain ms reqs where
    run: "add_variable_sets net sid rest (msgs @ [m]) (log @ [req])
          = (Inr ((msgs @ [m]) @ ms), (log @ [req]) @ reqs)"
    and len: "length ms = length rest" "length reqs = length rest"
    using Cons.IH by blast
  have "add_variable_sets net sid (set_id # rest) msgs log
        = (Inr (msgs @ (m # ms)), log @ (req # reqs))"
    using step run by simp
  then show ?case using len
    by (intro exI [of _ "m # ms"] exI [of _ "req # reqs"]) simp
qed

text \<open>
  A response with status 201 and a record under \<^verbatim>\<open>result\<close> is a success of the helper.
\<close>

lemma created_record_result:
  assumes "created_record out = Some result"
  shows "handle (normalized out) = Inr (JObj result)"
  using assms
  by (auto simp: created_record_def handle_def normalized_def is_success_def json_result_def
        py_get_def dict_get_def
      split: http_outcome.splits if_splits sum.splits json.splits option.splits)

text \<open>
  A confirmation is its words around the identifiers; what stands in a concatenation is
  a part of it.
\<close>

lemma sublist_mid: "sublist xs (a @ xs @ b)"
  by simp

lemma sublist_mid3: "sublist xs (a @ b @ c @ xs @ d)"
  by (metis append.assoc sublist_appendI)

lemma sublist_mid5: "sublist xs (a @ b @ c @ d @ e @ xs @ f)"
  by (metis append.assoc sublist_appendI)

text \<open>
  When the helper fails with its typed error or gives a mapping, \<^verbatim>\<open>create_incident\<close>
  returns a string: the exceptions that leave the tool come from results that are no
  mapping.
\<close>

lemma create_incident_returns_string:
  assumes "mapping_or_error (fst (make_servicenow_request net ''api/now/table/incident''
             (incident_payload short_description description caller_id urgency impact)
             ''POST'' log))"
  shows "\<exists>s. fst (create_incident net short_description description caller_id urgency impact log)
             = Inr s"
proof (cases "fst (make_servicenow_request net ''api/now/table/incident''
             (incident_payload short_description description caller_id urgency impact)
             ''POST'' log)")
  case (Inl e)
  then obtain m where "e = ValueError m"
    using helper_raises_only_ValueError by (auto simp: post_unfold)
  with post_result [OF Inl] show ?thesis
    by (simp add: create_incident_def bind_def except_ValueError_def Let_def)
next
  case (Inr v)
  with assms obtain d where "v = JObj d"
    by (cases v) (simp_all add: mapping_or_error_def)
  with post_result [OF Inr] show ?thesis
    by (simp add: create_incident_def py_get_def bind_def except_ValueError_def Let_def)
qed

section \<open>The identifiers in a confirmation\<close>

text \<open>What each creation tool returns for a record that the remote side created.\<close>

lemma sublist_mid2: "sublist xs (a @ b @ xs @ c)"
  by (metis append.assoc sublist_appendI)

lemma created_parent:
  assumes "\<forall>req. created_record (net (length log) req) = Some result"
  shows "fst (make_servicenow_request net ep p ''POST'' log) = Inr (JObj result)"
  using assms created_record_result by (simp add: post_unfold)

lemma create_incident_reports_ids:
  assumes "fst (make_servicenow_request net ''api/now/table/incident''
                  (incident_payload sd d c u i) ''POST'' log) = Inr (JObj result)"
      and "map_of result ''number'' = Some number"
      and "map_of result ''sys_id'' = Some sys_id"
  shows "fst (create_incident net sd d c u i log)
         = Inr (''Successfully created incident '' @ py_str number @ '' (Sys ID: ''
                @ py_str sys_id @ '').'')"
  using post_result [OF assms(1)] assms(2,3)
  by (simp add: create_incident_def py_get_def dict_get_def bind_def except_ValueError_def
        Let_def)

lemma create_kb_article_reports_ids:
  assumes "fst (make_servicenow_request net ''api/now/table/kb_knowledge''
                  (kb_article_payload sd body kb ws) ''POST'' log) = Inr (JObj result)"
      and "map_of result ''number'' = Some number"
      and "map_of result ''sys_id'' = Some sys_id"
  shows "fst (create_kb_article net sd body kb ws log)
         = Inr (''Successfully created KB article '' @ py_str number @ '' (Sys ID: ''
                @ py_str sys_id @ '').'')"
  using post_result [OF assms(1)] assms(2,3)
  by (simp add: create_kb_article_def py_get_def dict_get_def bind_def except_ValueError_def
        Let_def)

lemma create_client_script_reports_ids:
  assumes "fst (make_servicenow_request net ''api/now/table/sys_script_client''
                  (client_script_payload name table script ui_type script_type field_name is_active)
                  ''POST'' log) = Inr (JObj result)"
      and "map_of result ''sys_id'' = Some sys_id"
      and "\<not> (script_type = ''onChange'' \<and> \<not> truthy_opt field_name)"
  shows "fst (create_client_script net name table script ui_type script_type field_name is_active log)
         = Inr (''Successfully created Client Script '' @ sq
                @ py_str (dict_get result ''name'' (JStr name)) @ sq
                @ '' (Sys ID: '' @ py_str sys_id @ '').'')"
  using post_result [OF assms(1)] assms(2,3)
  by (simp add: create_client_script_def py_get_def dict_get_def bind_def except_ValueError_def
        Let_def)

lemma create_business_rule_reports_ids:
  assumes "fst (make_servicenow_request net ''api/now/table/sys_script''
                  (business_rule_payload name table script when order ai au ad aq is_active)
                  ''POST'' log) = Inr (JObj result)"
      and "map_of result ''sys_id'' = Some sys_id"
  shows "fst (create_business_rule net name table script when order ai au ad aq is_active log)
         = Inr (''Successfully created Business Rule '' @ sq
                @ py_str (dict_get result ''name'' (JStr name)) @ sq
                @ '' (Sys ID: '' @ py_str sys_id @ '').'')"
  using post_result [OF assms(1)] assms(2)
  by (simp add: create_business_rule_def py_get_def dict_get_def bind_def except_ValueError_def
        Let_def)

lemma glide_duration_in_range:
  "\<bar>duration_seconds div 86400\<bar> \<le> 999999999 \<Longrightarrow>
   \<exists>duration. glide_duration duration_seconds = Inr duration"
  by (auto simp: glide_duration_def timedelta_str_def bind_def Let_def)

lemma create_sla_definition_reports_ids:
  assumes "glide_duration duration_seconds = Inr duration"
      and "fst (make_servicenow_request net ''api/now/table/contract_sla''
                  (sla_payload name table duration start stop pause) ''POST'' log)
           = Inr (JObj result)"
      and "map_of result ''sys_id'' = Some sys_id"
  shows "fst (create_sla_definition net name table duration_seconds start stop pause log)
         = Inr (''Successfully created SLA Definition '' @ sq
                @ py_str (dict_get result ''name'' (JStr name)) @ sq
                @ '' (Sys ID: '' @ py_str sys_id
                @ ''). Conditions should be verified in ServiceNow UI.'')"
  using post_result [OF assms(2)] assms(1,3)
  by (simp add: create_sla_definition_def py_get_def dict_get_def bind_def except_ValueError_def
        Let_def)

text \<open>
  A composite tool whose parent has a \<^verbatim>\<open>sys_id\<close> returns its confirmation, when the
  variables have a type name or none and the dependent creations fail with the typed
  error or give a mapping.
\<close>

lemma create_record_producer_returns:
  assumes parent: "fst (make_servicenow_request net ''api/now/table/sc_cat_item_producer''
                      (record_producer_payload name table_name sd cat script) ''POST'' log)
                   = Inr (JObj result)"
      and sid: "truthy (dict_get result ''sys_id'' (JStr []))"
      and typed: "\<forall>var_def \<in> set (opt_list variables). text_typed var_def"
      and shaped: "\<forall>n req. mapping_or_error (handle (normalized (net n req)))"
  shows "\<exists>rest. fst (create_record_producer net name table_name sd cat script variables sets log)
         = Inr (''Successfully created Record Producer '' @ sq
                @ py_str (dict_get result ''name'' (JStr name)) @ sq @ '' (Sys ID: ''
                @ py_str (dict_get result ''sys_id'' (JStr [])) @ rest)"
proof -
  let ?preq = "\<lparr>req_method = ''POST'', req_endpoint = ''api/now/table/sc_cat_item_producer'',
                req_payload = record_producer_payload name table_name sd cat script\<rparr>"
  let ?sid = "dict_get result ''sys_id'' (JStr [])"
  note p = post_result [OF parent]
  obtain sms sreqs where
    sets_run: "add_variable_sets net ?sid (opt_list sets) [] (log @ [?preq])
               = (Inr ([] @ sms), (log @ [?preq]) @ sreqs)"
    using add_variable_sets_run [OF shaped] by blast
  obtain ms vreqs where
    vars_run: "add_variables net ''api/now/table/item_option_new'' ''cat_item'' ?sid 0
                 (opt_list variables) [] ((log @ [?preq]) @ sreqs)
               = (Inr ([] @ ms), ((log @ [?preq]) @ sreqs) @ vreqs)"
    using add_variables_run [OF typed shaped] by blast
  have "fst (create_record_producer net name table_name sd cat script variables sets log)
        = Inr (producer_message (dict_get result ''name'' (JStr name)) ?sid sms ms
                 (opt_list variables))"
    using p sid sets_run vars_run
    by (simp add: create_record_producer_def py_get_def Let_def)
  then show ?thesis
    by (simp add: producer_message_def Let_def)
qed

lemma create_variable_set_returns:
  assumes parent: "fst (make_servicenow_request net ''api/now/table/io_set''
                      (variable_set_payload name description) ''POST'' log)
                   = Inr (JObj result)"
      and sid: "truthy (dict_get result ''sys_id'' (JStr []))"
      and typed: "\<forall>var_def \<in> set (opt_list variables). text_typed var_def"
      and shaped: "\<forall>n req. mapping_or_error (handle (normalized (net n req)))"
  shows "\<exists>rest. fst (create_variable_set net name description variables log)
         = Inr (''Successfully created Variable Set '' @ sq
                @ py_str (dict_get result ''name'' (JStr name)) @ sq @ '' (Sys ID: ''
                @ py_str (dict_get result ''sys_id'' (JStr [])) @ rest)"
proof -
  let ?preq = "\<lparr>req_method = ''POST'', req_endpoint = ''api/now/table/io_set'',
                req_payload = variable_set_payload name description\<rparr>"
  let ?sid = "dict_get result ''sys_id'' (JStr [])"
  note p = post_result [OF parent]
  obtain ms vreqs where
    vars_run: "add_variables net ''api/now/table/io_set_variable'' ''variable_set'' ?sid 0
                 (opt_list variables) [] (log @ [?preq])
               = (Inr ([] @ ms), (log @ [?preq]) @ vreqs)"
    using add_variables_run [OF typed shaped] by blast
  have "fst (create_variable_set net name description variables log)
        = Inr (variable_set_message (dict_get result ''name'' (JStr name)) ?sid ms)"
    using p sid vars_run
    by (simp add: create_variable_set_def py_get_def Let_def)
  then show ?thesis
    by (simp add: variable_set_message_def Let_def)
qed

text \<open>
  C2.  The claim: every creation tool, given a successful 201 response whose body has
  \<^verbatim>\<open>result.number\<close> and \<^verbatim>\<open>result.sys_id\<close>, returns a string that contains both
  values.  Only \<^verbatim>\<open>create_incident\<close> and \<^verbatim>\<open>create_kb_article\<close> read the number; the
  other tools read the name of the record, as their docstrings say.  What holds, for a
  creation call answered with status 201 and a record that has a \<^verbatim>\<open>number\<close> and a
  \<^verbatim>\<open>sys_id\<close>, of any JSON value: \<^verbatim>\<open>create_incident\<close> and \<^verbatim>\<open>create_kb_article\<close>
  return a string that contains the text of both; \<^verbatim>\<open>create_client_script\<close> (when its
  validation passes), \<^verbatim>\<open>create_business_rule\<close> and \<^verbatim>\<open>create_sla_definition\<close>
  (for a duration of at most 999999999 days) return a string that contains the text of
  the \<^verbatim>\<open>sys_id\<close> and the name of the record, which is the \<^verbatim>\<open>name\<close> of the result, or
  the name asked for when the result has none; \<^verbatim>\<open>create_record_producer\<close> and
  \<^verbatim>\<open>create_variable_set\<close> return such a string too, when the \<^verbatim>\<open>sys_id\<close> is not
  empty or zero, the variable definitions have a type name or none, and the dependent
  creations fail with the error of the helper or give a mapping.  Every tool is stated
  to return: the string exists.
\<close>
theorem creation_tools_report_identifiers:
  assumes resp: "\<forall>req. created_record (net (length log) req) = Some result"
      and number: "map_of result ''number'' = Some number"
      and sys_id: "map_of result ''sys_id'' = Some sys_id"
  shows "(\<exists>out. fst (create_incident net short_description description caller_id urgency impact log)
                 = Inr out \<and> sublist (py_str number) out \<and> sublist (py_str sys_id) out) \<and>
         (\<exists>out. fst (create_kb_article net short_description article_body kb_knowledge_base
                       workflow_state log)
                 = Inr out \<and> sublist (py_str number) out \<and> sublist (py_str sys_id) out) \<and>
         (\<not> (script_type = ''onChange'' \<and> \<not> truthy_opt field_name) \<longrightarrow>
            (\<exists>out. fst (create_client_script net name table script ui_type script_type field_name
                          is_active log)
                    = Inr out \<and> sublist (py_str sys_id) out
                    \<and> sublist (py_str (dict_get result ''name'' (JStr name))) out)) \<and>
         (\<exists>out. fst (create_business_rule net name table script when order action_insert
                       action_update action_delete action_query is_active log)
                 = Inr out \<and> sublist (py_str sys_id) out
                 \<and> sublist (py_str (dict_get result ''name'' (JStr name))) out) \<and>
         (\<bar>duration_seconds div 86400\<bar> \<le> 999999999 \<longrightarrow>
            (\<exists>out. fst (create_sla_definition net name table duration_seconds start_condition
                          stop_condition pause_condition log)
                    = Inr out \<and> sublist (py_str sys_id) out
                    \<and> sublist (py_str (dict_get result ''name'' (JStr name))) out)) \<and>
         (truthy sys_id \<and> (\<forall>var_def \<in> set (opt_list variables). text_typed var_def)
            \<and> (\<forall>n req. mapping_or_error (handle (normalized (net n req)))) \<longrightarrow>
            (\<exists>out. fst (create_record_producer net name table summary category_sys_id
                          server_script variables variable_set_ids log)
                    = Inr out \<and> sublist (py_str sys_id) out
                    \<and> sublist (py_str (dict_get result ''name'' (JStr name))) out) \<and>
            (\<exists>out. fst (create_variable_set net name description variables log)
                    = Inr out \<and> sublist (py_str sys_id) out
                    \<and> sublist (py_str (dict_get result ''name'' (JStr name))) out))"
proof -
  note parent = created_parent [where net = net and log = log, OF resp]
  have get: "dict_get result ''sys_id'' (JStr []) = sys_id"
    using sys_id by (simp add: dict_get_def)
  have incident: "\<exists>out. fst (create_incident net short_description description caller_id urgency
                               impact log)
                 = Inr out \<and> sublist (py_str number) out \<and> sublist (py_str sys_id) out"
    using create_incident_reports_ids [OF parent number sys_id] sublist_mid sublist_mid3
    by metis
  have kb: "\<exists>out. fst (create_kb_article net short_description article_body kb_knowledge_base
                       workflow_state log)
                 = Inr out \<and> sublist (py_str number) out \<and> sublist (py_str sys_id) out"
    using create_kb_article_reports_ids [OF parent number sys_id] sublist_mid sublist_mid3
    by metis
  have client: "\<not> (script_type = ''onChange'' \<and> \<not> truthy_opt field_name) \<longrightarrow>
            (\<exists>out. fst (create_client_script net name table script ui_type script_type field_name
                          is_active log)
                    = Inr out \<and> sublist (py_str sys_id) out
                    \<and> sublist (py_str (dict_get result ''name'' (JStr name))) out)"
    using create_client_script_reports_ids [OF parent sys_id] sublist_mid2 sublist_mid5
    by metis
  have rule: "\<exists>out. fst (create_business_rule net name table script when order action_insert
                       action_update action_delete action_query is_active log)
                 = Inr out \<and> sublist (py_str sys_id) out
                 \<and> sublist (py_str (dict_get result ''name'' (JStr name))) out"
    using create_business_rule_reports_ids [OF parent sys_id] sublist_mid2 sublist_mid5
    by metis
  have sla: "\<bar>duration_seconds div 86400\<bar> \<le> 999999999 \<longrightarrow>
            (\<exists>out. fst (create_sla_definition net name table duration_seconds start_condition
                          stop_condition pause_condition log)
                    = Inr out \<and> sublist (py_str sys_id) out
                    \<and> sublist (py_str (dict_get result ''name'' (JStr name))) out)"
  proof
    assume "\<bar>duration_seconds div 86400\<bar> \<le> 999999999"
    then obtain duration where d: "glide_duration duration_seconds = Inr duration"
      using glide_duration_in_range by blast
    show "\<exists>out. fst (create_sla_definition net name table duration_seconds start_condition
                          stop_condition pause_condition log)
                    = Inr out \<and> sublist (py_str sys_id) out
                    \<and> sublist (py_str (dict_get result ''name'' (JStr name))) out"
      using create_sla_definition_reports_ids [OF d parent sys_id] sublist_mid2 sublist_mid5
      by metis
  qed
  have composite: "truthy sys_id \<and> (\<forall>var_def \<in> set (opt_list variables). text_typed var_def)
            \<and> (\<forall>n req. mapping_or_error (handle (normalized (net n req)))) \<longrightarrow>
            (\<exists>out. fst (create_record_producer net name table summary category_sys_id
                          server_script variables variable_set_ids log)
                    = Inr out \<and> sublist (py_str sys_id) out
                    \<and> sublist (py_str (dict_get result ''name'' (JStr name))) out) \<and>
            (\<exists>out. fst (create_variable_set net name description variables log)
                    = Inr out \<and> sublist (py_str sys_id) out
                    \<and> sublist (py_str (dict_get result ''name'' (JStr name))) out)"
  proof (intro impI, elim conjE)
    assume sid: "truthy sys_id"
      and typed: "\<forall>var_def \<in> set (opt_list variables). text_typed var_def"
      and shaped: "\<forall>n req. mapping_or_error (handle (normalized (net n req)))"
    from sid get have sid': "truthy (dict_get result ''sys_id'' (JStr []))" by simp
    have producer: "\<exists>out. fst (create_record_producer net name table summary category_sys_id
                          server_script variables variable_set_ids log)
                    = Inr out \<and> sublist (py_str sys_id) out
                    \<and> sublist (py_str (dict_get result ''name'' (JStr name))) out"
      using create_record_producer_returns [OF parent sid' typed shaped] get
        sublist_mid2 sublist_mid5
      by metis
    have vset: "\<exists>out. fst (create_variable_set net name description variables log)
                    = Inr out \<and> sublist (py_str sys_id) out
                    \<and> sublist (py_str (dict_get result ''name'' (JStr name))) out"
      using create_variable_set_returns [OF parent sid' typed shaped] get
        sublist_mid2 sublist_mid5
      by metis
    from producer vset show "(\<exists>out. fst (create_record_producer net name table summary category_sys_id
                          server_script variables variable_set_ids log)
                    = Inr out \<and> sublist (py_str sys_id) out
                    \<and> sublist (py_str (dict_get result ''name'' (JStr name))) out) \<and>
            (\<exists>out. fst (create_variable_set net name description variables log)
                    = Inr out \<and> sublist (py_str sys_id) out
                    \<and> sublist (py_str (dict_get result ''name'' (JStr name))) out)"
      by (rule conjI)
  qed
  show ?thesis
    using incident kb client rule sla composite by blast
qed

text \<open>
  A remote side that answers every creation with the number \<^verbatim>\<open>X0001\<close> and the sys_id
  \<^verbatim>\<open>abc\<close>: the conditions hold there, and the confirmations are as computed.
\<close>
theorem creation_tools_report_identifiers_witness:
  "(\<forall>req. created_record (created_with_number (length ([] :: request list)) req)
          = Some [(''number'', JStr ''X0001''), (''sys_id'', JStr ''abc'')]) \<and>
   map_of [(''number'', JStr ''X0001''), (''sys_id'', JStr ''abc'')] ''number''
   = Some (JStr ''X0001'') \<and>
   map_of [(''number'', JStr ''X0001''), (''sys_id'', JStr ''abc'')] ''sys_id''
   = Some (JStr ''abc'') \<and>
   \<not> (''onLoad'' = ''onChange'' \<and> \<not> truthy_opt None) \<and>
   \<bar>(28800 :: int) div 86400\<bar> \<le> 999999999 \<and>
   truthy (JStr ''abc'') \<and>
   text_typed [(''name'', JStr ''ram''), (''type'', JStr ''integer'')] \<and>
   (\<forall>n req. mapping_or_error (handle (normalized (created_with_number n req)))) \<and>
   (\<exists>out. fst (create_incident created_with_number ''Printer down'' None None (Some ''3'')
                 (Some ''3'') [])
           = Inr out \<and> sublist (py_str (JStr ''X0001'')) out \<and> sublist (py_str (JStr ''abc'')) out) \<and>
   (\<exists>out. fst (create_client_script created_with_number ''check'' ''incident''
                 ''function onLoad() {}'' ''all'' ''onLoad'' None True [])
           = Inr out \<and> sublist (py_str (JStr ''abc'')) out
           \<and> sublist (py_str (dict_get [(''number'', JStr ''X0001''), (''sys_id'', JStr ''abc'')]
                                 ''name'' (JStr ''check''))) out) \<and>
   (\<exists>out. fst (create_sla_definition created_with_number ''check'' ''incident'' 28800
                 None None None [])
           = Inr out \<and> sublist (py_str (JStr ''abc'')) out
           \<and> sublist (py_str (dict_get [(''number'', JStr ''X0001''), (''sys_id'', JStr ''abc'')]
                                 ''name'' (JStr ''check''))) out) \<and>
   (\<exists>out. fst (create_record_producer created_with_number ''check'' ''incident'' None None None
                 (Some [ [(''name'', JStr ''ram''), (''type'', JStr ''integer'')] ]) None [])
           = Inr out \<and> sublist (py_str (JStr ''abc'')) out
           \<and> sublist (py_str (dict_get [(''number'', JStr ''X0001''), (''sys_id'', JStr ''abc'')]
                                 ''name'' (JStr ''check''))) out) \<and>
   fst (create_incident created_with_number ''Printer down'' None None (Some ''3'') (Some ''3'') [])
   = Inr ''Successfully created incident X0001 (Sys ID: abc).'' \<and>
   fst (create_record_producer created_with_number ''check'' ''incident'' None None None
          (Some [ [(''name'', JStr ''ram''), (''type'', JStr ''integer'')] ]) None [])
   = Inr (''Successfully created Record Producer '' @ sq @ ''check'' @ sq @ '' (Sys ID: abc).''
          @ nl @ ''Variables: Added variable '' @ sq @ ''ram'' @ sq)"
proof -
  let ?result = "[(''number'', JStr ''X0001''), (''sys_id'', JStr ''abc'')]"
  have resp: "\<forall>req. created_record (created_with_number (length ([] :: request list)) req)
          = Some ?result"
    by (simp add: created_with_number_def created_record_def remote_defs)
  have number: "map_of ?result ''number'' = Some (JStr ''X0001'')"
    and sys_id: "map_of ?result ''sys_id'' = Some (JStr ''abc'')"
    by simp_all
  have valid: "\<not> (''onLoad'' = ''onChange'' \<and> \<not> truthy_opt None)" by simp
  have range: "\<bar>(28800 :: int) div 86400\<bar> \<le> 999999999" by simp
  have sid: "truthy (JStr ''abc'')" by (simp add: truthy_def)
  have typed: "text_typed [(''name'', JStr ''ram''), (''type'', JStr ''integer'')]"
    by (simp add: text_typed_def)
  have shaped: "\<forall>n req. mapping_or_error (handle (normalized (created_with_number n req)))"
    by (simp add: created_with_number_def mapping_or_error_def helper_defs remote_defs value_defs)
  have typed': "\<forall>var_def \<in> set (opt_list (Some [ [(''name'', JStr ''ram''),
                                                     (''type'', JStr ''integer'')] ])).
                  text_typed var_def"
    using typed by (simp add: opt_list_def)
  note T = creation_tools_report_identifiers
             [where net = created_with_number and log = "[]" and result = ?result
                and number = "JStr ''X0001''" and sys_id = "JStr ''abc''"
                and short_description = "''Printer down''" and description = None
                and caller_id = None and urgency = "Some ''3''" and impact = "Some ''3''"
                and name = "''check''" and table = "''incident''"
                and script = "''function onLoad() {}''" and ui_type = "''all''"
                and script_type = "''onLoad''" and field_name = None and is_active = True
                and duration_seconds = 28800 and start_condition = None
                and stop_condition = None and pause_condition = None
                and summary = None and category_sys_id = None and server_script = None
                and variables = "Some [ [(''name'', JStr ''ram''), (''type'', JStr ''integer'')] ]"
                and variable_set_ids = None,
              OF resp number sys_id]
  note incident = T [THEN conjunct1]
  note client = T [THEN conjunct2, THEN conjunct2, THEN conjunct1, THEN mp, OF valid]
  note sla = T [THEN conjunct2, THEN conjunct2, THEN conjunct2, THEN conjunct2, THEN conjunct1,
                THEN mp, OF range]
  have cond: "truthy (JStr ''abc'')
              \<and> (\<forall>var_def \<in> set (opt_list (Some [ [(''name'', JStr ''ram''),
                                                       (''type'', JStr ''integer'')] ])).
                    text_typed var_def)
              \<and> (\<forall>n req. mapping_or_error (handle (normalized (created_with_number n req))))"
    using sid typed' shaped by (intro conjI)
  note producer = T [THEN conjunct2, THEN conjunct2, THEN conjunct2, THEN conjunct2,
                     THEN conjunct2, THEN mp, OF cond, THEN conjunct1]
  have run: "fst (create_incident created_with_number ''Printer down'' None None (Some ''3'')
                    (Some ''3'') [])
   = Inr ''Successfully created incident X0001 (Sys ID: abc).''"
    by (simp add: created_with_number_def create_incident_def
        helper_defs payload_defs remote_defs value_defs print_defs)
  have run': "fst (create_record_producer created_with_number ''check'' ''incident'' None None None
          (Some [ [(''name'', JStr ''ram''), (''type'', JStr ''integer'')] ]) None [])
   = Inr (''Successfully created Record Producer '' @ sq @ ''check'' @ sq @ '' (Sys ID: abc).''
          @ nl @ ''Variables: Added variable '' @ sq @ ''ram'' @ sq)"
    by (simp add: created_with_number_def create_record_producer_def add_variable_def
          var_payload_def var_name_def producer_message_def var_type_map_def
          helper_defs payload_defs remote_defs value_defs print_defs)
  show ?thesis
    by (intro conjI) (rule resp, rule number, rule sys_id, rule valid, rule range, rule sid,
         rule typed, rule shaped, rule incident, rule client, rule sla, rule producer,
         rule run, rule run')
qed

text \<open>
  The claim as it is written fails on the same remote side: the confirmations of
  \<^verbatim>\<open>create_client_script\<close>, \<^verbatim>\<open>create_business_rule\<close>, \<^verbatim>\<open>create_sla_definition\<close>,
  \<^verbatim>\<open>create_record_producer\<close> and \<^verbatim>\<open>create_variable_set\<close> do not contain the
  number.  Each condition of the statement above is needed: a client script that fails
  its validation returns the validation message, without the \<^verbatim>\<open>sys_id\<close>; a duration of
  1157407407 days leaves \<^verbatim>\<open>create_sla_definition\<close> with an \<^verbatim>\<open>OverflowError\<close>; a
  \<^verbatim>\<open>sys_id\<close> that is the number 0 makes \<^verbatim>\<open>create_variable_set\<close> report that no
  \<^verbatim>\<open>sys_id\<close> was returned; a variable definition whose \<^verbatim>\<open>type\<close> is a number, or a
  dependent creation answered with \<^verbatim>\<open>{"result": null}\<close>, leaves
  \<^verbatim>\<open>create_record_producer\<close> with an \<^verbatim>\<open>AttributeError\<close>.
\<close>
theorem client_script_does_not_report_number:
  "created_record (created_with_number 0
      \<lparr>req_method = ''POST'', req_endpoint = ''api/now/table/sys_script_client'',
        req_payload = client_script_payload ''check'' ''incident'' ''function onLoad() {}''
                         ''all'' ''onLoad'' None True\<rparr>)
   = Some [(''number'', JStr ''X0001''), (''sys_id'', JStr ''abc'')] \<and>
   fst (create_client_script created_with_number ''check'' ''incident'' ''function onLoad() {}''
          ''all'' ''onLoad'' None True [])
   = Inr (''Successfully created Client Script '' @ sq @ ''check'' @ sq @ '' (Sys ID: abc).'') \<and>
   \<not> sublist ''X0001''
        (''Successfully created Client Script '' @ sq @ ''check'' @ sq @ '' (Sys ID: abc).'') \<and>
   fst (create_client_script created_with_number ''check'' ''incident'' ''function onChange() {}''
          ''all'' ''onChange'' None True [])
   = Inr (''Error: '' @ sq @ ''field_name'' @ sq @ '' is required when script_type is ''
          @ sq @ ''onChange'' @ sq @ ''.'') \<and>
   \<not> sublist ''abc''
        (''Error: '' @ sq @ ''field_name'' @ sq @ '' is required when script_type is ''
         @ sq @ ''onChange'' @ sq @ ''.'') \<and>
   fst (create_sla_definition created_with_number ''P1'' ''incident'' 100000000000000
          None None None [])
   = Inl (OverflowError ''days=1157407407; must have magnitude <= 999999999'') \<and>
   created_record (created_with_zero_sys_id 0
      \<lparr>req_method = ''POST'', req_endpoint = ''api/now/table/io_set'',
        req_payload = variable_set_payload ''Hardware'' None\<rparr>)
   = Some [(''number'', JStr ''X0001''), (''sys_id'', JInt 0)] \<and>
   fst (create_variable_set created_with_zero_sys_id ''Hardware'' None None [])
   = Inr ''Error creating Variable Set: No sys_id returned from ServiceNow.'' \<and>
   \<not> sublist (py_str (JInt 0))
        ''Error creating Variable Set: No sys_id returned from ServiceNow.'' \<and>
   fst (create_record_producer created_with_number ''Laptop'' ''incident'' None None None
          (Some [ [(''name'', JStr ''ram''), (''type'', JInt 5)] ]) None [])
   = Inl (AttributeError (sq @ ''int'' @ sq @ '' object has no attribute '' @ sq @ ''lower'' @ sq)) \<and>
   created_record (second_call_gives_null 0
      \<lparr>req_method = ''POST'', req_endpoint = ''api/now/table/sc_cat_item_producer'',
        req_payload = record_producer_payload ''Laptop'' ''incident'' None None None\<rparr>)
   = Some [(''number'', JStr ''X0001''), (''name'', JStr ''Laptop''), (''sys_id'', JStr ''abc'')] \<and>
   fst (create_record_producer second_call_gives_null ''Laptop'' ''incident'' None None None
          (Some [ [(''name'', JStr ''ram'')] ]) None [])
   = Inl (AttributeError (sq @ ''NoneType'' @ sq @ '' object has no attribute '' @ sq @ ''get'' @ sq)) \<and>
   fst (create_business_rule created_with_number ''check'' ''incident'' ''gs.info(1);'' ''before''
          100 True True False False True [])
   = Inr (''Successfully created Business Rule '' @ sq @ ''check'' @ sq @ '' (Sys ID: abc).'') \<and>
   \<not> sublist ''X0001''
        (''Successfully created Business Rule '' @ sq @ ''check'' @ sq @ '' (Sys ID: abc).'') \<and>
   fst (create_sla_definition created_with_number ''P1'' ''incident'' 28800 None None None [])
   = Inr (''Successfully created SLA Definition '' @ sq @ ''P1'' @ sq
          @ '' (Sys ID: abc). Conditions should be verified in ServiceNow UI.'') \<and>
   \<not> sublist ''X0001''
        (''Successfully created SLA Definition '' @ sq @ ''P1'' @ sq
         @ '' (Sys ID: abc). Conditions should be verified in ServiceNow UI.'') \<and>
   fst (create_record_producer created_with_number ''Laptop'' ''incident'' None None None
          None None [])
   = Inr (''Successfully created Record Producer '' @ sq @ ''Laptop'' @ sq
          @ '' (Sys ID: abc). No variables were added.'') \<and>
   \<not> sublist ''X0001''
        (''Successfully created Record Producer '' @ sq @ ''Laptop'' @ sq
         @ '' (Sys ID: abc). No variables were added.'') \<and>
   fst (create_variable_set created_with_number ''Hardware'' None None [])
   = Inr (''Successfully created Variable Set '' @ sq @ ''Hardware'' @ sq
          @ '' (Sys ID: abc). No variables were added.'') \<and>
   \<not> sublist ''X0001''
        (''Successfully created Variable Set '' @ sq @ ''Hardware'' @ sq
         @ '' (Sys ID: abc). No variables were added.'')"
proof -
  have k: "fst (create_business_rule created_with_number ''check'' ''incident'' ''gs.info(1);''
                  ''before'' 100 True True False False True [])
   = Inr (''Successfully created Business Rule '' @ sq @ ''check'' @ sq @ '' (Sys ID: abc).'')"
    by (simp add: created_with_number_def create_business_rule_def
          helper_defs payload_defs remote_defs value_defs print_defs)
  have l: "\<not> sublist ''X0001''
        (''Successfully created Business Rule '' @ sq @ ''check'' @ sq @ '' (Sys ID: abc).'')"
    by (simp add: sublist_Cons_right)
  have m: "fst (create_sla_definition created_with_number ''P1'' ''incident'' 28800 None None
                  None [])
   = Inr (''Successfully created SLA Definition '' @ sq @ ''P1'' @ sq
          @ '' (Sys ID: abc). Conditions should be verified in ServiceNow UI.'')"
    by (simp add: created_with_number_def create_sla_definition_def glide_duration_def
          timedelta_str_def zfill_def before_dot_def Let_def
          helper_defs payload_defs remote_defs value_defs print_defs)
  have n: "\<not> sublist ''X0001''
        (''Successfully created SLA Definition '' @ sq @ ''P1'' @ sq
         @ '' (Sys ID: abc). Conditions should be verified in ServiceNow UI.'')"
    by (simp add: sublist_Cons_right)
  have o: "fst (create_record_producer created_with_number ''Laptop'' ''incident'' None None None
          None None [])
   = Inr (''Successfully created Record Producer '' @ sq @ ''Laptop'' @ sq
          @ '' (Sys ID: abc). No variables were added.'')"
    by (simp add: created_with_number_def create_record_producer_def producer_message_def
          opt_list_def helper_defs payload_defs remote_defs value_defs print_defs)
  have p: "\<not> sublist ''X0001''
        (''Successfully created Record Producer '' @ sq @ ''Laptop'' @ sq
         @ '' (Sys ID: abc). No variables were added.'')"
    by (simp add: sublist_Cons_right)
  have q: "fst (create_variable_set created_with_number ''Hardware'' None None [])
   = Inr (''Successfully created Variable Set '' @ sq @ ''Hardware'' @ sq
          @ '' (Sys ID: abc). No variables were added.'')"
    by (simp add: created_with_number_def create_variable_set_def variable_set_message_def
          opt_list_def helper_defs payload_defs remote_defs value_defs print_defs)
  have r: "\<not> sublist ''X0001''
        (''Successfully created Variable Set '' @ sq @ ''Hardware'' @ sq
         @ '' (Sys ID: abc). No variables were added.'')"
    by (simp add: sublist_Cons_right)
  have g0: "created_record (created_with_zero_sys_id 0
      \<lparr>req_method = ''POST'', req_endpoint = ''api/now/table/io_set'',
        req_payload = variable_set_payload ''Hardware'' None\<rparr>)
   = Some [(''number'', JStr ''X0001''), (''sys_id'', JInt 0)]"
    by (simp add: created_with_zero_sys_id_def created_record_def remote_defs)
  have j0: "created_record (second_call_gives_null 0
      \<lparr>req_method = ''POST'', req_endpoint = ''api/now/table/sc_cat_item_producer'',
        req_payload = record_producer_payload ''Laptop'' ''incident'' None None None\<rparr>)
   = Some [(''number'', JStr ''X0001''), (''name'', JStr ''Laptop''), (''sys_id'', JStr ''abc'')]"
    by (simp add: second_call_gives_null_def created_record_def remote_defs)
  have a: "created_record (created_with_number 0
      \<lparr>req_method = ''POST'', req_endpoint = ''api/now/table/sys_script_client'',
        req_payload = client_script_payload ''check'' ''incident'' ''function onLoad() {}''
                         ''all'' ''onLoad'' None True\<rparr>)
   = Some [(''number'', JStr ''X0001''), (''sys_id'', JStr ''abc'')]"
    by (simp add: created_with_number_def created_record_def remote_defs)
  have b: "fst (create_client_script created_with_number ''check'' ''incident''
                  ''function onLoad() {}'' ''all'' ''onLoad'' None True [])
   = Inr (''Successfully created Client Script '' @ sq @ ''check'' @ sq @ '' (Sys ID: abc).'')"
    by (simp add: created_with_number_def create_client_script_def
          helper_defs payload_defs remote_defs value_defs print_defs)
  have c: "\<not> sublist ''X0001''
        (''Successfully created Client Script '' @ sq @ ''check'' @ sq @ '' (Sys ID: abc).'')"
    by (simp add: sublist_Cons_right)
  have d: "fst (create_client_script created_with_number ''check'' ''incident''
                  ''function onChange() {}'' ''all'' ''onChange'' None True [])
   = Inr (''Error: '' @ sq @ ''field_name'' @ sq @ '' is required when script_type is ''
          @ sq @ ''onChange'' @ sq @ ''.'')"
    by (simp add: create_client_script_def truthy_opt_def)
  have e: "\<not> sublist ''abc''
        (''Error: '' @ sq @ ''field_name'' @ sq @ '' is required when script_type is ''
         @ sq @ ''onChange'' @ sq @ ''.'')"
    by (simp add: sublist_Cons_right)
  have f: "fst (create_sla_definition created_with_number ''P1'' ''incident'' 100000000000000
          None None None [])
   = Inl (OverflowError ''days=1157407407; must have magnitude <= 999999999'')"
    by (simp add: create_sla_definition_def glide_duration_def timedelta_str_def value_defs
          print_defs Let_def)
  have g: "fst (create_variable_set created_with_zero_sys_id ''Hardware'' None None [])
   = Inr ''Error creating Variable Set: No sys_id returned from ServiceNow.''"
    by (simp add: created_with_zero_sys_id_def create_variable_set_def
          helper_defs payload_defs remote_defs value_defs print_defs)
  have h: "\<not> sublist (py_str (JInt 0))
        ''Error creating Variable Set: No sys_id returned from ServiceNow.''"
    by (simp add: print_defs sublist_Cons_right)
  have i: "fst (create_record_producer created_with_number ''Laptop'' ''incident'' None None None
          (Some [ [(''name'', JStr ''ram''), (''type'', JInt 5)] ]) None [])
   = Inl (AttributeError (sq @ ''int'' @ sq @ '' object has no attribute '' @ sq @ ''lower'' @ sq))"
    by (simp add: created_with_number_def create_record_producer_def add_variable_def
          var_payload_def var_name_def helper_defs payload_defs remote_defs value_defs print_defs)
  have j: "fst (create_record_producer second_call_gives_null ''Laptop'' ''incident'' None None None
          (Some [ [(''name'', JStr ''ram'')] ]) None [])
   = Inl (AttributeError (sq @ ''NoneType'' @ sq @ '' object has no attribute '' @ sq @ ''get'' @ sq))"
    by (simp add: second_call_gives_null_def create_record_producer_def add_variable_def
          var_payload_def var_name_def var_type_map_def
          helper_defs payload_defs remote_defs value_defs print_defs)
  show ?thesis
    by (intro conjI) (rule a, rule b, rule c, rule d, rule e, rule f, rule g0, rule g, rule h,
       rule i, rule j0, rule j, rule k, rule l, rule m, rule n, rule o, rule p, rule q, rule r)
qed

section \<open>A record without identifiers\<close>

text \<open>
  C10.  When the helper gives a mapping for the creation, \<^verbatim>\<open>create_incident\<close> and
  \<^verbatim>\<open>create_kb_article\<close> return the confirmation, with \<^verbatim>\<open>UNKNOWN\<close> in the place of
  each of \<^verbatim>\<open>number\<close> and \<^verbatim>\<open>sys_id\<close> that the mapping lacks; a missing identifier
  is not an error.
\<close>

theorem missing_identifiers_are_UNKNOWN:
  assumes "fst (make_servicenow_request net ''api/now/table/incident''
                  (incident_payload short_description description caller_id urgency impact)
                  ''POST'' log) = Inr (JObj result)"
      and "fst (make_servicenow_request net' ''api/now/table/kb_knowledge''
                  (kb_article_payload title article_body kb_knowledge_base workflow_state)
                  ''POST'' log') = Inr (JObj result')"
  shows "fst (create_incident net short_description description caller_id urgency impact log)
         = Inr (''Successfully created incident '' @ identifier_or_unknown result ''number''
                @ '' (Sys ID: '' @ identifier_or_unknown result ''sys_id'' @ '').'') \<and>
         fst (create_kb_article net' title article_body kb_knowledge_base workflow_state log')
         = Inr (''Successfully created KB article '' @ identifier_or_unknown result' ''number''
                @ '' (Sys ID: '' @ identifier_or_unknown result' ''sys_id'' @ '').'')"
  using post_result [OF assms(1)] post_result [OF assms(2)]
  by (simp add: create_incident_def create_kb_article_def identifier_or_unknown_def py_get_def
        dict_get_def bind_def except_ValueError_def py_str_def Let_def split: option.splits)

theorem missing_identifiers_are_UNKNOWN_witness:
  "fst (make_servicenow_request (always (created [(''sys_id'', JStr ''abc'')]))
          ''api/now/table/incident''
          (incident_payload ''Printer down'' None None (Some ''3'') (Some ''3'')) ''POST'' [])
   = Inr (JObj [(''sys_id'', JStr ''abc'')]) \<and>
   fst (make_servicenow_request (always (created [])) ''api/now/table/kb_knowledge''
          (kb_article_payload ''How to'' ''Text'' None (Some ''draft'')) ''POST'' [])
   = Inr (JObj []) \<and>
   fst (create_incident (always (created [(''sys_id'', JStr ''abc'')]))
          ''Printer down'' None None (Some ''3'') (Some ''3'') [])
   = Inr ''Successfully created incident UNKNOWN (Sys ID: abc).'' \<and>
   fst (create_kb_article (always (created [])) ''How to'' ''Text'' None (Some ''draft'') [])
   = Inr ''Successfully created KB article UNKNOWN (Sys ID: UNKNOWN).''"
proof -
  have incident:
    "fst (make_servicenow_request (always (created [(''sys_id'', JStr ''abc'')]))
            ''api/now/table/incident''
            (incident_payload ''Printer down'' None None (Some ''3'') (Some ''3'')) ''POST'' [])
     = Inr (JObj [(''sys_id'', JStr ''abc'')])"
    by (simp add: helper_defs remote_defs value_defs)
  have kb:
    "fst (make_servicenow_request (always (created [])) ''api/now/table/kb_knowledge''
            (kb_article_payload ''How to'' ''Text'' None (Some ''draft'')) ''POST'' [])
     = Inr (JObj [])"
    by (simp add: helper_defs remote_defs value_defs)
  show ?thesis
    using incident kb missing_identifiers_are_UNKNOWN [OF incident kb]
    by (simp add: identifier_or_unknown_def py_str_def)
qed

section \<open>The composite tools\<close>

text \<open>
  C6.  When the mapping that the helper gives for the parent has no \<^verbatim>\<open>sys_id\<close>, or one
  that is empty, \<^verbatim>\<open>create_record_producer\<close> and \<^verbatim>\<open>create_variable_set\<close> return
  their error, and the one request sent is the creation of the parent: no variable set
  is attached and no variable is created.
\<close>

theorem no_sys_id_no_dependent_calls:
  assumes "fst (make_servicenow_request net ''api/now/table/sc_cat_item_producer''
                  (record_producer_payload name table_name short_description category_sys_id
                     script) ''POST'' log)
           = Inr (JObj result)"
      and "fst (make_servicenow_request net' ''api/now/table/io_set''
                  (variable_set_payload name' description) ''POST'' log')
           = Inr (JObj result')"
      and "\<not> truthy (dict_get result ''sys_id'' (JStr []))"
      and "\<not> truthy (dict_get result' ''sys_id'' (JStr []))"
  shows "create_record_producer net name table_name short_description category_sys_id script
           variables variable_set_ids log
         = (Inr ''Error creating Record Producer: No sys_id returned from ServiceNow.'',
            log @ [\<lparr>req_method = ''POST'', req_endpoint = ''api/now/table/sc_cat_item_producer'',
                     req_payload = record_producer_payload name table_name short_description
                                     category_sys_id script\<rparr>]) \<and>
         create_variable_set net' name' description variables' log'
         = (Inr ''Error creating Variable Set: No sys_id returned from ServiceNow.'',
            log' @ [\<lparr>req_method = ''POST'', req_endpoint = ''api/now/table/io_set'',
                      req_payload = variable_set_payload name' description\<rparr>])"
  using assms(3,4) post_result [OF assms(1)] post_result [OF assms(2)]
  by (simp add: create_record_producer_def create_variable_set_def py_get_def Let_def)

theorem no_sys_id_no_dependent_calls_witness:
  "fst (make_servicenow_request (always (created [(''name'', JStr ''Laptop'')]))
          ''api/now/table/sc_cat_item_producer''
          (record_producer_payload ''Laptop'' ''incident'' None None None) ''POST'' [])
   = Inr (JObj [(''name'', JStr ''Laptop'')]) \<and>
   fst (make_servicenow_request (always (created [(''sys_id'', JStr [])]))
          ''api/now/table/io_set'' (variable_set_payload ''Hardware'' None) ''POST'' [])
   = Inr (JObj [(''sys_id'', JStr [])]) \<and>
   \<not> truthy (dict_get [(''name'', JStr ''Laptop'')] ''sys_id'' (JStr [])) \<and>
   \<not> truthy (dict_get [(''sys_id'', JStr [])] ''sys_id'' (JStr [])) \<and>
   create_record_producer (always (created [(''name'', JStr ''Laptop'')]))
     ''Laptop'' ''incident'' None None None (Some [ [(''name'', JStr ''ram'')]]) (Some [''set1'']) []
   = (Inr ''Error creating Record Producer: No sys_id returned from ServiceNow.'',
      [\<lparr>req_method = ''POST'', req_endpoint = ''api/now/table/sc_cat_item_producer'',
        req_payload = [(''name'', JStr ''Laptop''),
                       (''table_name'', JStr ''incident''),
                       (''short_description'', JStr ''Laptop''),
                       (''active'', JStr ''true''),
                       (''sys_class_name'', JStr ''sc_cat_item_producer'')]\<rparr>]) \<and>
   create_variable_set (always (created [(''sys_id'', JStr [])]))
     ''Hardware'' None (Some [ [(''name'', JStr ''ram'')]]) []
   = (Inr ''Error creating Variable Set: No sys_id returned from ServiceNow.'',
      [\<lparr>req_method = ''POST'', req_endpoint = ''api/now/table/io_set'',
        req_payload = [(''name'', JStr ''Hardware''),
                       (''description'', JStr ''Hardware''),
                       (''active'', JStr ''true'')]\<rparr>])"
proof -
  have producer:
    "fst (make_servicenow_request (always (created [(''name'', JStr ''Laptop'')]))
            ''api/now/table/sc_cat_item_producer''
            (record_producer_payload ''Laptop'' ''incident'' None None None) ''POST'' [])
     = Inr (JObj [(''name'', JStr ''Laptop'')])"
    by (simp add: helper_defs remote_defs value_defs)
  have vset:
    "fst (make_servicenow_request (always (created [(''sys_id'', JStr [])]))
            ''api/now/table/io_set'' (variable_set_payload ''Hardware'' None) ''POST'' [])
     = Inr (JObj [(''sys_id'', JStr [])])"
    by (simp add: helper_defs remote_defs value_defs)
  have missing: "\<not> truthy (dict_get [(''name'', JStr ''Laptop'')] ''sys_id'' (JStr []))"
    and empty: "\<not> truthy (dict_get [(''sys_id'', JStr [])] ''sys_id'' (JStr []))"
    by (simp_all add: value_defs)
  show ?thesis
    using producer vset missing empty
      no_sys_id_no_dependent_calls [OF producer vset missing empty]
    by (simp add: payload_defs value_defs)
qed

section \<open>The type code of a variable\<close>

text \<open>The table of the codes, entry by entry.\<close>

lemma var_type_codes:
  "map_of var_type_map ''string'' = Some ''2''"
  "map_of var_type_map ''integer'' = Some ''9''"
  "map_of var_type_map ''boolean'' = Some ''6''"
  "map_of var_type_map ''reference'' = Some ''8''"
  "map_of var_type_map ''choice'' = Some ''3''"
  "map_of var_type_map ''text'' = Some ''1''"
  "map_of var_type_map ''date'' = Some ''5''"
  "map_of var_type_map ''datetime'' = Some ''4''"
  "map_of var_type_map ''currency'' = Some ''10''"
  "map_of var_type_map ''price'' = Some ''7''"
  by (simp_all add: var_type_map_def)














section \<open>The variables of a record producer, one by one\<close>

text \<open>
  The message of an item starts with the success marker exactly when its own creation
  succeeded, and with a failure marker exactly when it did not.
\<close>

lemma item_reported_marker:
  assumes "item_reported outcome quoted msg"
  shows "prefix ''Added variable '' msg = item_succeeded outcome \<and>
         (prefix ''Failed to add variable '' msg \<or> prefix ''Error adding variable '' msg)
         = (\<not> item_succeeded outcome)"
proof (cases "item_succeeded outcome")
  case True
  with assms have "msg = ''Added variable '' @ quoted" by (simp add: item_reported_def)
  with True show ?thesis by simp
next
  case False
  with assms consider
      zs where "msg = (''Failed to add variable '' @ quoted) @ zs"
    | zs where "msg = (''Error adding variable '' @ quoted) @ zs"
    unfolding item_reported_def prefix_def by auto
  then show ?thesis using False by cases simp_all
qed

text \<open>
  Where the loop over the variables does report every item: a parent created with a
  \<^verbatim>\<open>sys_id\<close>, variable definitions whose \<^verbatim>\<open>type\<close> is a type name or omitted, and
  a remote side whose creations fail with the error of the helper or give a mapping.
  Then \<^verbatim>\<open>create_record_producer\<close> returns the confirmation of the parent, with its
  name and its \<^verbatim>\<open>sys_id\<close>, then the messages of the variables: one for every
  variable, in their order, each reporting the outcome of the call of its own item.
  Every variable gets its call, whatever happened to the others, and the messages with
  the success marker are as many as the items that succeeded, those with a failure
  marker as many as the items that failed.
\<close>

lemma record_producer_reports_each_variable:
  assumes parent: "fst (make_servicenow_request net ''api/now/table/sc_cat_item_producer''
                      (record_producer_payload name table_name short_description
                         category_sys_id script) ''POST'' log)
                   = Inr (JObj result)"
      and sid: "truthy (dict_get result ''sys_id'' (JStr []))"
      and typed: "\<forall>var_def \<in> set variables. text_typed var_def"
      and shaped: "\<forall>n req. mapping_or_error (handle (normalized (net n req)))"
      and some: "variables \<noteq> []"
  shows "\<exists>head msgs reqs.
           create_record_producer net name table_name short_description category_sys_id script
             (Some variables) variable_set_ids log
           = (Inr (head @ nl @ ''Variables: '' @ join ''; '' msgs), reqs) \<and>
           prefix (''Successfully created Record Producer '' @ sq
                   @ py_str (dict_get result ''name'' (JStr name)) @ sq @ '' (Sys ID: ''
                   @ py_str (dict_get result ''sys_id'' (JStr [])) @ '').'') head \<and>
           length msgs = length variables \<and>
           length reqs = length log + 1 + length (opt_list variable_set_ids) + length variables \<and>
           (\<forall>i < length variables.
              item_reported
                (outcome_of net reqs (length log + 1 + length (opt_list variable_set_ids) + i))
                (sq @ py_str (var_name i (variables ! i)) @ sq) (msgs ! i)) \<and>
           length (filter (prefix ''Added variable '') msgs)
           = card {i. i < length variables \<and>
                      item_succeeded
                        (outcome_of net reqs
                           (length log + 1 + length (opt_list variable_set_ids) + i))} \<and>
           length (filter (\<lambda>m. prefix ''Failed to add variable '' m
                                \<or> prefix ''Error adding variable '' m) msgs)
           = card {i. i < length variables \<and>
                      \<not> item_succeeded
                          (outcome_of net reqs
                             (length log + 1 + length (opt_list variable_set_ids) + i))}"
proof -
  let ?preq = "\<lparr>req_method = ''POST'', req_endpoint = ''api/now/table/sc_cat_item_producer'',
                req_payload = record_producer_payload name table_name short_description
                                category_sys_id script\<rparr>"
  let ?sid = "dict_get result ''sys_id'' (JStr [])"
  let ?header = "''Successfully created Record Producer '' @ sq
                   @ py_str (dict_get result ''name'' (JStr name)) @ sq @ '' (Sys ID: ''
                   @ py_str ?sid @ '').''"
  let ?k = "length log + 1 + length (opt_list variable_set_ids)"
  note p = post_result [OF parent]
  obtain sms sreqs where
    sets_run: "add_variable_sets net ?sid (opt_list variable_set_ids) [] (log @ [?preq])
               = (Inr ([] @ sms), (log @ [?preq]) @ sreqs)"
    and slen: "length sreqs = length (opt_list variable_set_ids)"
    using add_variable_sets_run [OF shaped] by blast
  obtain ms vreqs where
    vars_run: "add_variables net ''api/now/table/item_option_new'' ''cat_item'' ?sid 0 variables
                 [] ((log @ [?preq]) @ sreqs)
               = (Inr ([] @ ms), ((log @ [?preq]) @ sreqs) @ vreqs)"
    and vlen: "length ms = length variables" "length vreqs = length variables"
    and each: "\<forall>i < length variables.
              item_reported
                (handle (normalized (net (length ((log @ [?preq]) @ sreqs) + i) (vreqs ! i))))
                (sq @ py_str (var_name (0 + i) (variables ! i)) @ sq) (ms ! i)"
    using add_variables_run [OF typed shaped] by blast
  let ?head = "if sms \<noteq> [] then ?header @ nl @ ''Variable Sets: '' @ join ''; '' sms
               else ?header"
  let ?reqs = "((log @ [?preq]) @ sreqs) @ vreqs"
  have ms_ne: "ms \<noteq> []" using some vlen by auto
  have run: "create_record_producer net name table_name short_description category_sys_id script
               (Some variables) variable_set_ids log
             = (Inr (?head @ nl @ ''Variables: '' @ join ''; '' ms), ?reqs)"
    using p sid sets_run vars_run ms_ne
    by (simp add: create_record_producer_def py_get_def Let_def opt_list_def producer_message_def)
  have nth: "\<And>i. i < length variables \<Longrightarrow> ?reqs ! (?k + i) = vreqs ! i"
    using slen by (simp add: nth_append)
  have reported: "\<forall>i < length variables.
              item_reported (outcome_of net ?reqs (?k + i))
                (sq @ py_str (var_name i (variables ! i)) @ sq) (ms ! i)"
    using each slen nth by (simp add: outcome_of_def)
  have marker: "\<And>i. i < length variables \<Longrightarrow>
      prefix ''Added variable '' (ms ! i) = item_succeeded (outcome_of net ?reqs (?k + i)) \<and>
      (prefix ''Failed to add variable '' (ms ! i) \<or> prefix ''Error adding variable '' (ms ! i))
      = (\<not> item_succeeded (outcome_of net ?reqs (?k + i)))"
    using reported item_reported_marker by blast
  have added: "length (filter (prefix ''Added variable '') ms)
           = card {i. i < length variables \<and> item_succeeded (outcome_of net ?reqs (?k + i))}"
  proof -
    have "{i. i < length ms \<and> prefix ''Added variable '' (ms ! i)}
          = {i. i < length variables \<and> item_succeeded (outcome_of net ?reqs (?k + i))}"
      using marker vlen by auto
    then show ?thesis by (simp add: length_filter_conv_card)
  qed
  have failed: "length (filter (\<lambda>m. prefix ''Failed to add variable '' m
                                \<or> prefix ''Error adding variable '' m) ms)
           = card {i. i < length variables
                      \<and> \<not> item_succeeded (outcome_of net ?reqs (?k + i))}"
  proof -
    have "{i. i < length ms \<and> (prefix ''Failed to add variable '' (ms ! i)
                                \<or> prefix ''Error adding variable '' (ms ! i))}
          = {i. i < length variables \<and> \<not> item_succeeded (outcome_of net ?reqs (?k + i))}"
      using marker vlen by auto
    then show ?thesis by (simp add: length_filter_conv_card)
  qed
  have "prefix ?header ?head" by simp
  moreover have "length ?reqs = ?k + length variables"
    using slen vlen by simp
  ultimately show ?thesis using run vlen reported added failed
    by (intro exI [of _ ?head] exI [of _ ms] exI [of _ ?reqs]) blast
qed

text \<open>
  Two variables, of which the call of the second times out: the parent with its name and
  \<^verbatim>\<open>sys_id\<close>, one success marker and one failure marker.
\<close>

lemma record_producer_timeout_is_reported:
  "fst (make_servicenow_request third_call_times_out ''api/now/table/sc_cat_item_producer''
          (record_producer_payload ''Laptop'' ''incident'' None None None) ''POST'' [])
   = Inr (JObj [(''name'', JStr ''Laptop''), (''sys_id'', JStr ''abc'')]) \<and>
   truthy (dict_get [(''name'', JStr ''Laptop''), (''sys_id'', JStr ''abc'')] ''sys_id'' (JStr [])) \<and>
   text_typed [(''name'', JStr ''ram''), (''type'', JStr ''integer'')] \<and>
   text_typed [(''name'', JStr ''disk'')] \<and>
   (\<forall>n req. mapping_or_error (handle (normalized (third_call_times_out n req)))) \<and>
   fst (create_record_producer third_call_times_out ''Laptop'' ''incident'' None None None
          (Some [ [(''name'', JStr ''ram''), (''type'', JStr ''integer'')],
                 [(''name'', JStr ''disk'')]])
          None [])
   = Inr (''Successfully created Record Producer '' @ sq @ ''Laptop'' @ sq @ '' (Sys ID: abc).''
          @ nl @ ''Variables: Added variable '' @ sq @ ''ram'' @ sq
          @ ''; Error adding variable '' @ sq @ ''disk'' @ sq
          @ '': Could not connect to ServiceNow: Request Error: timed out'')"
proof -
  have parent:
    "fst (make_servicenow_request third_call_times_out ''api/now/table/sc_cat_item_producer''
            (record_producer_payload ''Laptop'' ''incident'' None None None) ''POST'' [])
     = Inr (JObj [(''name'', JStr ''Laptop''), (''sys_id'', JStr ''abc'')])"
    by (simp add: third_call_times_out_def helper_defs remote_defs value_defs)
  have sid:
    "truthy (dict_get [(''name'', JStr ''Laptop''), (''sys_id'', JStr ''abc'')] ''sys_id'' (JStr []))"
    by (simp add: value_defs)
  have typed:
    "\<forall>var_def \<in> set [ [(''name'', JStr ''ram''), (''type'', JStr ''integer'')],
                       [(''name'', JStr ''disk'')]]. text_typed var_def"
    by (simp add: text_typed_def)
  have shaped: "\<forall>n req. mapping_or_error (handle (normalized (third_call_times_out n req)))"
    by (simp add: third_call_times_out_def mapping_or_error_def helper_defs remote_defs
          value_defs)
  have some: "[ [(''name'', JStr ''ram''), (''type'', JStr ''integer'')],
               [(''name'', JStr ''disk'')]] \<noteq> []"
    by simp
  have run:
    "fst (create_record_producer third_call_times_out ''Laptop'' ''incident'' None None None
            (Some [ [(''name'', JStr ''ram''), (''type'', JStr ''integer'')],
                   [(''name'', JStr ''disk'')]])
            None [])
     = Inr (''Successfully created Record Producer '' @ sq @ ''Laptop'' @ sq @ '' (Sys ID: abc).''
            @ nl @ ''Variables: Added variable '' @ sq @ ''ram'' @ sq
            @ ''; Error adding variable '' @ sq @ ''disk'' @ sq
            @ '': Could not connect to ServiceNow: Request Error: timed out'')"
    by (simp add: create_record_producer_def add_variable_def var_payload_def var_name_def
          producer_message_def third_call_times_out_def var_type_map_def
          helper_defs payload_defs remote_defs value_defs print_defs)
  show ?thesis
    using parent sid typed shaped run
      record_producer_reports_each_variable [OF parent sid typed shaped some, of None]
    by simp
qed

text \<open>
  C5.  The claim: in \<^verbatim>\<open>create_record_producer\<close>, once the parent is created, every
  variable contributes its own message, a variable that fails does not keep the others
  from being processed, and the string returned always has the name and the
  \<^verbatim>\<open>sys_id\<close> of the parent; with two variables of which one fails there is one
  success marker and one failure marker.  The loop over the variables catches
  \<^verbatim>\<open>ValueError\<close> only, as the tool does.  On a remote side that creates the parent
  and the first variable and answers the creation of the second variable with status 201
  and the body \<^verbatim>\<open>{"result": null}\<close>, \<^verbatim>\<open>var_result.get\<close> raises an
  \<^verbatim>\<open>AttributeError\<close> that leaves the loop and the tool: with three variables asked
  for, the third is never sent and no string is returned; with two, no string with the
  two markers is returned.  A variable definition whose \<^verbatim>\<open>type\<close> is a number does the
  same before its own request is sent.
\<close>

theorem record_producer_dependent_fault_aborts:
  "create_record_producer third_call_gives_null ''Laptop'' ''incident'' None None None
     (Some [ [(''name'', JStr ''ram''), (''type'', JStr ''integer'')],
             [(''name'', JStr ''disk'')],
             [(''name'', JStr ''cpu'')] ]) None []
   = (Inl (AttributeError (sq @ ''NoneType'' @ sq @ '' object has no attribute '' @ sq @ ''get'' @ sq)),
      [\<lparr>req_method = ''POST'', req_endpoint = ''api/now/table/sc_cat_item_producer'',
        req_payload = [(''name'', JStr ''Laptop''),
                       (''table_name'', JStr ''incident''),
                       (''short_description'', JStr ''Laptop''),
                       (''active'', JStr ''true''),
                       (''sys_class_name'', JStr ''sc_cat_item_producer'')]\<rparr>,
       \<lparr>req_method = ''POST'', req_endpoint = ''api/now/table/item_option_new'',
        req_payload = [(''cat_item'', JStr ''abc''),
                       (''name'', JStr ''ram''),
                       (''question_text'', JStr ''ram''),
                       (''type'', JStr ''9''),
                       (''mandatory'', JStr ''false''),
                       (''order'', JInt 100),
                       (''help_text'', JStr []),
                       (''description'', JStr [])]\<rparr>,
       \<lparr>req_method = ''POST'', req_endpoint = ''api/now/table/item_option_new'',
        req_payload = [(''cat_item'', JStr ''abc''),
                       (''name'', JStr ''disk''),
                       (''question_text'', JStr ''disk''),
                       (''type'', JStr ''2''),
                       (''mandatory'', JStr ''false''),
                       (''order'', JInt 200),
                       (''help_text'', JStr []),
                       (''description'', JStr [])]\<rparr>]) \<and>
   fst (create_record_producer third_call_gives_null ''Laptop'' ''incident'' None None None
          (Some [ [(''name'', JStr ''ram''), (''type'', JStr ''integer'')],
                  [(''name'', JStr ''disk'')] ]) None [])
   = Inl (AttributeError (sq @ ''NoneType'' @ sq @ '' object has no attribute '' @ sq @ ''get'' @ sq)) \<and>
   create_record_producer (always (created [(''name'', JStr ''Laptop''), (''sys_id'', JStr ''abc'')]))
     ''Laptop'' ''incident'' None None None
     (Some [ [(''name'', JStr ''ram''), (''type'', JInt 5)],
             [(''name'', JStr ''disk'')] ]) None []
   = (Inl (AttributeError (sq @ ''int'' @ sq @ '' object has no attribute '' @ sq @ ''lower'' @ sq)),
      [\<lparr>req_method = ''POST'', req_endpoint = ''api/now/table/sc_cat_item_producer'',
        req_payload = [(''name'', JStr ''Laptop''),
                       (''table_name'', JStr ''incident''),
                       (''short_description'', JStr ''Laptop''),
                       (''active'', JStr ''true''),
                       (''sys_class_name'', JStr ''sc_cat_item_producer'')]\<rparr>])"
proof -
  note run_defs = create_record_producer_def add_variable_def var_payload_def var_name_def
    var_type_map_def helper_defs payload_defs remote_defs value_defs print_defs
  have three:
    "create_record_producer third_call_gives_null ''Laptop'' ''incident'' None None None
       (Some [ [(''name'', JStr ''ram''), (''type'', JStr ''integer'')],
               [(''name'', JStr ''disk'')],
               [(''name'', JStr ''cpu'')] ]) None []
     = (Inl (AttributeError (sq @ ''NoneType'' @ sq @ '' object has no attribute '' @ sq @ ''get''
                             @ sq)),
        [\<lparr>req_method = ''POST'', req_endpoint = ''api/now/table/sc_cat_item_producer'',
          req_payload = [(''name'', JStr ''Laptop''),
                         (''table_name'', JStr ''incident''),
                         (''short_description'', JStr ''Laptop''),
                         (''active'', JStr ''true''),
                         (''sys_class_name'', JStr ''sc_cat_item_producer'')]\<rparr>,
         \<lparr>req_method = ''POST'', req_endpoint = ''api/now/table/item_option_new'',
          req_payload = [(''cat_item'', JStr ''abc''),
                         (''name'', JStr ''ram''),
                         (''question_text'', JStr ''ram''),
                         (''type'', JStr ''9''),
                         (''mandatory'', JStr ''false''),
                         (''order'', JInt 100),
                         (''help_text'', JStr []),
                         (''description'', JStr [])]\<rparr>,
         \<lparr>req_method = ''POST'', req_endpoint = ''api/now/table/item_option_new'',
          req_payload = [(''cat_item'', JStr ''abc''),
                         (''name'', JStr ''disk''),
                         (''question_text'', JStr ''disk''),
                         (''type'', JStr ''2''),
                         (''mandatory'', JStr ''false''),
                         (''order'', JInt 200),
                         (''help_text'', JStr []),
                         (''description'', JStr [])]\<rparr>])"
    by (simp add: third_call_gives_null_def run_defs)
  have two:
    "fst (create_record_producer third_call_gives_null ''Laptop'' ''incident'' None None None
            (Some [ [(''name'', JStr ''ram''), (''type'', JStr ''integer'')],
                    [(''name'', JStr ''disk'')] ]) None [])
     = Inl (AttributeError (sq @ ''NoneType'' @ sq @ '' object has no attribute '' @ sq @ ''get''
                            @ sq))"
    by (simp add: third_call_gives_null_def run_defs)
  have numeric:
    "create_record_producer (always (created [(''name'', JStr ''Laptop''), (''sys_id'', JStr ''abc'')]))
       ''Laptop'' ''incident'' None None None
       (Some [ [(''name'', JStr ''ram''), (''type'', JInt 5)],
               [(''name'', JStr ''disk'')] ]) None []
     = (Inl (AttributeError (sq @ ''int'' @ sq @ '' object has no attribute '' @ sq @ ''lower''
                             @ sq)),
        [\<lparr>req_method = ''POST'', req_endpoint = ''api/now/table/sc_cat_item_producer'',
          req_payload = [(''name'', JStr ''Laptop''),
                         (''table_name'', JStr ''incident''),
                         (''short_description'', JStr ''Laptop''),
                         (''active'', JStr ''true''),
                         (''sys_class_name'', JStr ''sc_cat_item_producer'')]\<rparr>])"
    by (simp add: run_defs)
  show ?thesis
    by (intro conjI) (rule three, rule two, rule numeric)
qed

end
